theory Spec2Isabelle
  imports Complex_Main "HOL-Library.Sublist"
begin

chapter \<open>The model of \<open>codegen/model.py\<close>\<close>

section \<open>Python strings and lists\<close>

text \<open>
  A Python \<open>str\<close> is modelled as a \<open>string\<close> (a list of characters). The code only
  compares, searches, slices and concatenates strings, so reading a non-ASCII character
  as the bytes of its UTF-8 encoding changes no result below. \<open>startswith\<close> is
  \<open>prefix\<close>, \<open>endswith\<close> is \<open>suffix\<close>.
\<close>

text \<open>
  \<open>output.index(eos)\<close>: the least index at which \<open>eos\<close> occurs in \<open>output\<close>;
  \<open>None\<close> stands for the \<open>ValueError\<close> of a missing substring. The test
  \<open>eos in output\<close> succeeds exactly when \<open>index\<close> does not raise.
\<close>

fun str_index :: "string \<Rightarrow> string \<Rightarrow> nat option" where
  "str_index [] eos = (if eos = [] then Some 0 else None)"
| "str_index (c # cs) eos =
     (if prefix eos (c # cs) then Some 0 else map_option Suc (str_index cs eos))"

definition str_in :: "string \<Rightarrow> string \<Rightarrow> bool" where
  "str_in eos output = (str_index output eos \<noteq> None)"

text \<open>\<open>s.replace(old, new)\<close>, for the non-empty \<open>old\<close> the code passes.\<close>

function str_replace :: "string \<Rightarrow> string \<Rightarrow> string \<Rightarrow> string" where
  "str_replace old new [] = []"
| "str_replace old new (c # cs) =
     (if old \<noteq> [] \<and> prefix old (c # cs)
      then new @ str_replace old new (drop (length old) (c # cs))
      else c # str_replace old new cs)"
  by pat_completeness auto
termination
  by (relation "measure (\<lambda>(old, new, s). length s)") auto

text \<open>
  \<open>s.strip()\<close>. The characters removed are the ASCII ones Python counts as white space;
  the white space beyond ASCII (which \<open>str.strip\<close> also removes) is not modelled.
\<close>

definition py_isspace :: "char \<Rightarrow> bool" where
  "py_isspace c =
     (c \<in> set [CHR 0x09, CHR 0x0A, CHR 0x0B, CHR 0x0C, CHR 0x0D,
                CHR 0x1C, CHR 0x1D, CHR 0x1E, CHR 0x1F, CHR 0x20])"

definition str_strip :: "string \<Rightarrow> string" where
  "str_strip s = rev (dropWhile py_isspace (rev (dropWhile py_isspace s)))"

text \<open>\<open>s.split(sep)\<close> for a separator of one character.\<close>

fun str_split :: "char \<Rightarrow> string \<Rightarrow> string list" where
  "str_split sep [] = [[]]"
| "str_split sep (c # cs) =
     (if c = sep then [] # str_split sep cs
      else (case str_split sep cs of p # ps \<Rightarrow> (c # p) # ps | [] \<Rightarrow> [[c]]))"

text \<open>The exceptions the module can raise, or pass on from a collaborator.\<close>

datatype py_error =
    AssertionError
  | ValueError
  | IndexError
  | UnboundLocalError
  | RuntimeError string
  | OtherException string

text \<open>\<open>xs[i]\<close> on a list: a negative index counts from the end.\<close>

definition list_get :: "'a list \<Rightarrow> int \<Rightarrow> py_error + 'a" where
  "list_get xs i =
     (if 0 \<le> i \<and> i < int (length xs) then Inr (xs ! nat i)
      else if i < 0 \<and> - int (length xs) \<le> i then Inr (xs ! nat (int (length xs) + i))
      else Inl IndexError)"

text \<open>\<open>xs[lo:hi]\<close>: each bound is clamped to the list, a negative one counts from the end.\<close>

definition slice_index :: "nat \<Rightarrow> int \<Rightarrow> nat" where
  "slice_index n i = (if i < 0 then nat (int n + i) else min n (nat i))"

definition py_slice :: "'a list \<Rightarrow> int \<Rightarrow> int \<Rightarrow> 'a list" where
  "py_slice xs lo hi =
     (let a = slice_index (length xs) lo; b = slice_index (length xs) hi
      in take (b - a) (drop a xs))"

text \<open>
  Decimal digits: \<open>int(s)\<close> and \<open>str(n)\<close> for a natural number, \<open>float(s)\<close> for digits
  with an optional fraction. The pattern \<open>\d\<close> is read as an ASCII digit.
\<close>

definition is_digit :: "char \<Rightarrow> bool" where
  "is_digit c = (c \<in> set ''0123456789'')"

definition digit_val :: "char \<Rightarrow> nat" where
  "digit_val c = of_char c - 48"

definition int_of_digits :: "string \<Rightarrow> nat" where
  "int_of_digits ds = foldl (\<lambda>acc c. 10 * acc + digit_val c) 0 ds"

fun str_of_nat :: "nat \<Rightarrow> string" where
  "str_of_nat n =
     (if n < 10 then [''0123456789'' ! n]
      else str_of_nat (n div 10) @ [''0123456789'' ! (n mod 10)])"

declare str_of_nat.simps [simp del]

text \<open>
  \<open>float(s)\<close> for \<open>s\<close> of the shape \<open>digits\<close> or \<open>digits.digits\<close>, as the exact decimal
  value. Python rounds it to the nearest double; for up to 15 significant digits the
  double prints back as the same decimal, and it is integral exactly when the decimal is.
\<close>

definition float_of_decimal :: "string \<Rightarrow> rat" where
  "float_of_decimal s =
     (let ip = takeWhile is_digit s; fp = drop (Suc (length ip)) s
      in of_nat (int_of_digits ip) + of_nat (int_of_digits fp) / 10 ^ length fp)"

definition is_integer :: "rat \<Rightarrow> bool" where
  "is_integer x = (of_int \<lfloor>x\<rfloor> = x)"

section \<open>Removing the stop markers from a decoded completion\<close>

text \<open>
  The loop at the end of \<open>HFTorchDecoder.codegen\<close>, \<open>IncoderDecoder.codegen\<close>,
  \<open>Codegen2Decoder.codegen\<close>, \<open>SantaCoder.codegen\<close>, \<open>StarCoderInfill.codegen\<close>,
  \<open>Speechless.codegen\<close> and \<open>CodeT5P.codegen\<close>, for one \<open>output\<close>:
  \<^verbatim>\<open>
    min_index = 10000
    for eos in self.eos:
        if eos in output:
            min_index = min(min_index, output.index(eos))
    outputs.append(output[:min_index])
  \<close>
\<close>

fun min_index_loop :: "nat \<Rightarrow> string \<Rightarrow> string list \<Rightarrow> nat" where
  "min_index_loop min_index output [] = min_index"
| "min_index_loop min_index output (eos # rest) =
     min_index_loop
       (if str_in eos output then min min_index (the (str_index output eos)) else min_index)
       output rest"

definition remove_eos :: "string list \<Rightarrow> string \<Rightarrow> string" where
  "remove_eos eos_list output = take (min_index_loop 10000 output eos_list) output"

text \<open>Some marker of the list is a substring of the text.\<close>

definition marker_present :: "string list \<Rightarrow> string \<Rightarrow> bool" where
  "marker_present eos_list output = list_ex (\<lambda>eos. sublist eos output) eos_list"

section \<open>The stopping criterion \<open>EndOfFunctionCriteria\<close>\<close>

text \<open>
  The tokenizer is a collaborator: \<open>encode\<close> takes \<open>add_special_tokens\<close> and the text,
  \<open>decode\<close> takes \<open>skip_special_tokens\<close> and one row of tokens (\<open>batch_decode\<close> decodes
  each row of a batch on its own). Tokens are of any type \<open>'t\<close>.
\<close>

record 't Tokenizer =
  encode :: "bool \<Rightarrow> string \<Rightarrow> 't list"
  decode :: "bool \<Rightarrow> 't list \<Rightarrow> string"

text \<open>
  The object's attributes; \<open>criteria_eos\<close> is its \<open>self.eos\<close>, and \<open>end_length\<close> is the
  dictionary from a sequence index to its recorded length.
\<close>

record 't EndOfFunctionCriteria =
  start_length :: nat
  criteria_eos :: "string list"
  tokenizer :: "'t Tokenizer"
  end_length :: "nat \<rightharpoonup> nat"

definition EndOfFunctionCriteria_init ::
  "nat \<Rightarrow> string list \<Rightarrow> 't Tokenizer \<Rightarrow> 't EndOfFunctionCriteria" where
  "EndOfFunctionCriteria_init n eos_list tok =
     \<lparr>start_length = n, criteria_eos = eos_list, tokenizer = tok, end_length = Map.empty\<rparr>"

text \<open>
  The length stored for a stop string found in row \<open>row\<close>:
  \<^verbatim>\<open>len(input_ids[index, self.start_length : -len(self.tokenizer.encode(stop_string,
      add_special_tokens=False, return_tensors="pt")[0])])\<close>
\<close>

definition stop_length :: "'t EndOfFunctionCriteria \<Rightarrow> 't list \<Rightarrow> string \<Rightarrow> nat" where
  "stop_length self row stop_string =
     length (py_slice row (int (start_length self))
               (- int (length (encode (tokenizer self) False stop_string))))"

text \<open>The inner loop \<open>for stop_string in self.eos\<close>: every stop string found stores a length.\<close>

fun record_stops ::
  "'t EndOfFunctionCriteria \<Rightarrow> 't list \<Rightarrow> string \<Rightarrow> nat \<Rightarrow> string list \<Rightarrow>
   (nat \<rightharpoonup> nat) \<Rightarrow> (nat \<rightharpoonup> nat)" where
  "record_stops self row decoded_generation index [] el = el"
| "record_stops self row decoded_generation index (stop_string # rest) el =
     record_stops self row decoded_generation index rest
       (if str_in stop_string decoded_generation
        then el(index \<mapsto> stop_length self row stop_string) else el)"

text \<open>The outer loop over \<open>enumerate(decoded_generations)\<close>; it returns the dictionary and \<open>done\<close>.\<close>

fun call_loop ::
  "'t EndOfFunctionCriteria \<Rightarrow> 't list list \<Rightarrow> (nat \<times> string) list \<Rightarrow>
   (nat \<rightharpoonup> nat) \<Rightarrow> (nat \<rightharpoonup> nat) \<times> bool list" where
  "call_loop self input_ids [] el = (el, [])"
| "call_loop self input_ids ((index, decoded_generation) # rest) el =
     (let finished = list_ex (\<lambda>stop_string. str_in stop_string decoded_generation)
                       (criteria_eos self);
          el1 = (if finished \<and> el index = None
                 then record_stops self (input_ids ! index) decoded_generation index
                        (criteria_eos self) el
                 else el);
          (el2, dn) = call_loop self input_ids rest el1
      in (el2, finished # dn))"

text \<open>
  \<open>__call__(input_ids, scores)\<close>: the object with its dictionary updated, and \<open>all(done)\<close>.
  The rows read by \<open>input_ids ! index\<close> exist: the indices come from the rows themselves.
\<close>

definition EndOfFunctionCriteria_call ::
  "'t EndOfFunctionCriteria \<Rightarrow> 't list list \<Rightarrow> 't EndOfFunctionCriteria \<times> bool" where
  "EndOfFunctionCriteria_call self input_ids =
     (let decoded_generations =
            map (\<lambda>row. decode (tokenizer self) False (drop (start_length self) row)) input_ids;
          (el, dn) = call_loop self input_ids (enumerate 0 decoded_generations) (end_length self)
      in (self\<lparr>end_length := el\<rparr>, list_all id dn))"

text \<open>A run of the generation loop: the criterion is called once per step.\<close>

definition run_steps ::
  "'t EndOfFunctionCriteria \<Rightarrow> 't list list list \<Rightarrow> 't EndOfFunctionCriteria" where
  "run_steps self steps = fold (\<lambda>input_ids c. fst (EndOfFunctionCriteria_call c input_ids)) steps self"

text \<open>A stop string shows in the decoded generation of sequence \<open>index\<close> at this step.\<close>

definition stop_seen :: "'t EndOfFunctionCriteria \<Rightarrow> 't list list \<Rightarrow> nat \<Rightarrow> bool" where
  "stop_seen self input_ids index =
     (index < length input_ids \<and>
      marker_present (criteria_eos self)
        (decode (tokenizer self) False (drop (start_length self) (input_ids ! index))))"

text \<open>The number of tokens generated so far for a row.\<close>

definition generated_length :: "'t EndOfFunctionCriteria \<Rightarrow> 't list \<Rightarrow> nat" where
  "generated_length self row = length (drop (start_length self) row)"

section \<open>Decoders and their construction\<close>

text \<open>The concrete classes of the module (\<open>DecoderBase\<close> and \<open>AnthropicDecoder\<close> are abstract).\<close>

datatype decoder_class =
    VLlmDecoder | ChatML | CodeLlamaInstruct70B | CodeLlamaInstructSmall | Zyte | OpenChat
  | Solar | Alpaca | WhiteRabbitNeo | HFTorchDecoder | DeepSeekInstruct | Magicoder
  | OpenAIChatDecoder | MistralChatDecoder | AnthropicMessageDecoder | IncoderDecoder
  | Codegen2Decoder | SantaCoder | StarCoderInfill | Speechless | CodeT5P | Code | XwinCoder
  | OpenCodeInterpreterDecoder | CodeGemma

text \<open>
  The module-level list \<open>EOS\<close> is one mutable object. Its contents at import time are
  \<open>EOS_initial\<close>; the state of the process, as far as this module goes, is the current
  contents of that object, passed along as a \<open>string list\<close>.
\<close>

definition EOS_initial :: "string list" where
  "EOS_initial = [''<|endoftext|>'', ''<|endofmask|>'', ''</s>'']"

text \<open>
  What \<open>self.eos\<close> is bound to: the module's list object itself (after \<open>self.eos = EOS\<close>),
  or a list of the decoder's own (after \<open>self.eos = self.eos + self.extra_eos\<close>, which
  builds a new list).
\<close>

datatype eos_ref = EOS_object | Own_list "string list"

record decoder =
  cls :: decoder_class
  name :: string
  batch_size :: int
  temperature :: real
  eos :: eos_ref
  skip_special_tokens :: bool
  max_new_tokens :: int
  conversational :: bool
  dtype :: string
  trust_remote_code :: bool

text \<open>The stop markers a decoder sees when the module's list holds \<open>E\<close>.\<close>

definition eos_of :: "string list \<Rightarrow> decoder \<Rightarrow> string list" where
  "eos_of E self = (case eos self of EOS_object \<Rightarrow> E | Own_list l \<Rightarrow> l)"

text \<open>The keyword arguments of \<open>DecoderBase.__init__\<close>, and their defaults.\<close>

record kwargs_t =
  kw_batch_size :: int
  kw_temperature :: real
  kw_max_new_tokens :: int
  kw_conversational :: bool
  kw_max_conversational_new_tokens :: int
  kw_dtype :: string
  kw_trust_remote_code :: bool

definition default_kwargs :: kwargs_t where
  "default_kwargs =
     \<lparr>kw_batch_size = 1, kw_temperature = 0.8, kw_max_new_tokens = 512,
      kw_conversational = False, kw_max_conversational_new_tokens = 1024,
      kw_dtype = ''bfloat16'', kw_trust_remote_code = False\<rparr>"

definition DecoderBase_init :: "decoder_class \<Rightarrow> string \<Rightarrow> kwargs_t \<Rightarrow> decoder" where
  "DecoderBase_init c nm kw =
     \<lparr>cls = c, name = nm, batch_size = kw_batch_size kw, temperature = kw_temperature kw,
      eos = EOS_object, skip_special_tokens = False,
      max_new_tokens =
        (if kw_conversational kw then kw_max_conversational_new_tokens kw
         else kw_max_new_tokens kw),
      conversational = kw_conversational kw, dtype = kw_dtype kw,
      trust_remote_code = kw_trust_remote_code kw\<rparr>"

text \<open>
  \<open>self.eos += extra\<close> extends the list \<open>self.eos\<close> is bound to, in place: the module's
  list when the decoder still shares it. It returns the decoder and the module's list.
\<close>

definition eos_extend :: "decoder \<Rightarrow> string list \<Rightarrow> string list \<Rightarrow> decoder \<times> string list" where
  "eos_extend self extra E =
     (case eos self of
        EOS_object \<Rightarrow> (self, E @ extra)
      | Own_list l \<Rightarrow> (self\<lparr>eos := Own_list (l @ extra)\<rparr>, E))"

text \<open>\<open>self.eos = self.eos + extra\<close> binds \<open>self.eos\<close> to a new list.\<close>

definition eos_rebind :: "decoder \<Rightarrow> string list \<Rightarrow> string list \<Rightarrow> decoder" where
  "eos_rebind self extra E = self\<lparr>eos := Own_list (eos_of E self @ extra)\<rparr>"

text \<open>
  \<open>VLlmDecoder.__init__\<close> and \<open>HFTorchDecoder.__init__\<close>. Loading the model and the
  tokenizer is the collaborator's work and is not modelled.
\<close>

definition VLlmDecoder_init :: "decoder_class \<Rightarrow> string \<Rightarrow> kwargs_t \<Rightarrow> decoder" where
  "VLlmDecoder_init c nm kw = DecoderBase_init c nm kw"

definition HFTorchDecoder_init :: "decoder_class \<Rightarrow> string \<Rightarrow> kwargs_t \<Rightarrow> decoder" where
  "HFTorchDecoder_init c nm kw = (DecoderBase_init c nm kw)\<lparr>skip_special_tokens := True\<rparr>"

text \<open>
  The \<open>__init__\<close> shared by the chat templates on vLLM:
  \<^verbatim>\<open>
    kwargs["conversational"] = True
    super().__init__(name, **kwargs)
    self.eos += ["\n```"]
  \<close>
\<close>

definition template_init ::
  "decoder_class \<Rightarrow> string \<Rightarrow> kwargs_t \<Rightarrow> string list \<Rightarrow> decoder \<times> string list" where
  "template_init c nm kw E =
     eos_extend (VLlmDecoder_init c nm (kw\<lparr>kw_conversational := True\<rparr>)) [''\<newline>```''] E"

text \<open>
  The second stop marker of \<open>Speechless\<close>, \<open><|end_of_sentence|>\<close> written with the
  full-width bar U+FF5C and the block U+2581, as the bytes of its UTF-8 encoding.
\<close>

definition end_of_sentence :: string where
  "end_of_sentence =
     ''<'' @ [CHR 0xEF, CHR 0xBD, CHR 0x9C] @ ''end'' @ [CHR 0xE2, CHR 0x96, CHR 0x81] @ ''of'' @
     [CHR 0xE2, CHR 0x96, CHR 0x81] @ ''sentence'' @ [CHR 0xEF, CHR 0xBD, CHR 0x9C] @ ''>''"

text \<open>
  Calling a class: its \<open>__init__\<close>, one equation per class. The result is the new decoder
  and the module's list after the call, or the exception raised.
\<close>

fun construct ::
  "decoder_class \<Rightarrow> string \<Rightarrow> kwargs_t \<Rightarrow> string list \<Rightarrow> py_error + decoder \<times> string list" where
  "construct VLlmDecoder nm kw E = Inr (VLlmDecoder_init VLlmDecoder nm kw, E)"
| "construct ChatML nm kw E = Inr (template_init ChatML nm kw E)"
| "construct CodeLlamaInstruct70B nm kw E = Inr (template_init CodeLlamaInstruct70B nm kw E)"
| "construct CodeLlamaInstructSmall nm kw E = Inr (template_init CodeLlamaInstructSmall nm kw E)"
| "construct Zyte nm kw E = Inr (template_init Zyte nm kw E)"
| "construct OpenChat nm kw E = Inr (template_init OpenChat nm kw E)"
| "construct Solar nm kw E = Inr (eos_extend (VLlmDecoder_init Solar nm kw) [''\<newline>```''] E)"
| "construct Alpaca nm kw E = Inr (template_init Alpaca nm kw E)"
| "construct WhiteRabbitNeo nm kw E = Inr (template_init WhiteRabbitNeo nm kw E)"
| "construct HFTorchDecoder nm kw E = Inr (HFTorchDecoder_init HFTorchDecoder nm kw, E)"
| "construct DeepSeekInstruct nm kw E = Inr (template_init DeepSeekInstruct nm kw E)"
| "construct Magicoder nm kw E = Inr (template_init Magicoder nm kw E)"
| "construct OpenAIChatDecoder nm kw E = Inr (DecoderBase_init OpenAIChatDecoder nm kw, E)"
| "construct MistralChatDecoder nm kw E = Inr (DecoderBase_init MistralChatDecoder nm kw, E)"
| "construct AnthropicMessageDecoder nm kw E =
     Inr (DecoderBase_init AnthropicMessageDecoder nm kw, E)"
| "construct IncoderDecoder nm kw E =
     Inr (eos_rebind (HFTorchDecoder_init IncoderDecoder nm kw)
            [''<|endofmask|>'', ''<|/ file'', ''</cell>'', ''</text>'', ''</code>'', ''<|'',
             ''</CODE>''] E, E)"
| "construct Codegen2Decoder nm kw E =
     Inr (eos_rebind (HFTorchDecoder_init Codegen2Decoder nm kw) [''<eom>''] E, E)"
| "construct SantaCoder nm kw E =
     Inr (eos_rebind (HFTorchDecoder_init SantaCoder nm kw) [''<|endofmask|>''] E, E)"
| "construct StarCoderInfill nm kw E = Inr (HFTorchDecoder_init StarCoderInfill nm kw, E)"
| "construct Speechless nm kw E =
     (if ''uukuguy/speechless-coding-7b-16k-tora'' = nm
      then Inr (eos_rebind (HFTorchDecoder_init Speechless nm kw) [''</s>''] E, E)
      else if ''uukuguy/speechless-coder-ds-6.7b'' = nm
      then Inr (eos_rebind (HFTorchDecoder_init Speechless nm kw) [end_of_sentence] E, E)
      else Inl ValueError)"
| "construct CodeT5P nm kw E =
     (if nm \<in> set [''Salesforce/codet5p-2b'', ''Salesforce/codet5p-6b'',
                    ''Salesforce/codet5p-16b'', ''Salesforce/instructcodet5p-16b'']
      then Inr ((DecoderBase_init CodeT5P nm kw)\<lparr>skip_special_tokens := True\<rparr>, E)
      else Inl AssertionError)"
| "construct Code nm kw E = Inr (template_init Code nm kw E)"
| "construct XwinCoder nm kw E = Inr (template_init XwinCoder nm kw E)"
| "construct OpenCodeInterpreterDecoder nm kw E =
     Inr (eos_extend (HFTorchDecoder_init OpenCodeInterpreterDecoder nm kw)
            [''<|EOT|>'', ''\<newline>```\<newline>'', ''\<newline>if ''] E)"
| "construct CodeGemma nm kw E = Inr (template_init CodeGemma nm kw E)"

text \<open>
  A process constructs decoders one after the other; a call that raises leaves the
  module's list as it was. \<open>construct_all\<close> gives the list after a sequence of calls.
\<close>

fun construct_all :: "(decoder_class \<times> string \<times> kwargs_t) list \<Rightarrow> string list \<Rightarrow> string list" where
  "construct_all [] E = E"
| "construct_all ((c, nm, kw) # calls) E =
     construct_all calls (case construct c nm kw E of Inl e \<Rightarrow> E | Inr (d, E') \<Rightarrow> E')"

text \<open>
  The classes by what their code does: those whose \<open>__init__\<close> runs
  \<open>self.eos += ["\n```"]\<close>; those whose \<open>codegen\<close> ends in \<open>VLlmDecoder.codegen\<close>; those
  whose \<open>codegen\<close> decodes with transformers and runs the marker loop; and, among the
  latter, those whose \<open>codegen\<close> starts with \<open>if self.temperature == 0: assert ...\<close>.
\<close>

definition fence_classes :: "decoder_class list" where
  "fence_classes =
     [ChatML, CodeLlamaInstruct70B, CodeLlamaInstructSmall, Zyte, OpenChat, Solar, Alpaca,
      WhiteRabbitNeo, DeepSeekInstruct, Magicoder, Code, XwinCoder, CodeGemma]"

definition vllm_classes :: "decoder_class list" where
  "vllm_classes = VLlmDecoder # fence_classes"

definition transformers_classes :: "decoder_class list" where
  "transformers_classes =
     [HFTorchDecoder, IncoderDecoder, Codegen2Decoder, SantaCoder, StarCoderInfill, Speechless,
      CodeT5P, OpenCodeInterpreterDecoder]"

definition zero_temperature_asserting :: "decoder_class list" where
  "zero_temperature_asserting =
     [HFTorchDecoder, Codegen2Decoder, SantaCoder, StarCoderInfill, Speechless, CodeT5P,
      OpenCodeInterpreterDecoder]"

text \<open>The classes whose \<open>codegen\<close> asserts a positive temperature when it samples.\<close>

definition sampling_asserting :: "decoder_class list" where
  "sampling_asserting =
     vllm_classes @ [OpenAIChatDecoder, MistralChatDecoder, AnthropicMessageDecoder]"


section \<open>Prompt templates\<close>

text \<open>The f-strings of the \<open>codegen\<close> methods, character by character.\<close>

definition ChatML_prompt :: "string \<Rightarrow> string" where
  "ChatML_prompt prompt =
     ''<|im_start|>system\<newline>'' @
     ''You are an intelligent programming assistant to produce Python algorithmic solutions<|im_end|>\<newline>'' @
     ''<|im_start|>user\<newline>'' @
     ''Can you complete the following Python function?\<newline>'' @
     ''```python\<newline>'' @
     prompt @
     ''\<newline>'' @
     ''```\<newline>'' @
     ''<|im_end|>\<newline>'' @
     ''<|im_start|>assistant\<newline>'' @
     ''```python\<newline>''"

definition CodeLlamaInstruct70B_prompt :: "string \<Rightarrow> string" where
  "CodeLlamaInstruct70B_prompt prompt =
     [CHR 0x27] @
     ''<s>Source: system\<newline>'' @
     ''\<newline>'' @
     '' You are a helpful and honest code assistant expert in Python. Please, provide all answers to programming questions in Python.\<newline>'' @
     '' <step> Source: user\<newline>'' @
     ''\<newline>'' @
     '' Provide a self-contained Python script that solves the following problem:\<newline>'' @
     ''```python\<newline>'' @
     prompt @
     ''\<newline>'' @
     ''```\<newline>'' @
     '' <step> Source: assistant\<newline>'' @
     ''\<newline>'' @
     '' Here is a Python script that solves the problem:\<newline>'' @
     ''```python\<newline>''"

definition CodeLlamaInstructSmall_prompt :: "string \<Rightarrow> string" where
  "CodeLlamaInstructSmall_prompt prompt =
     ''[INST] Write code to solve the following coding problem that obeys the constraints and passes the example test cases. Please wrap your code answer using ```:\<newline>'' @
     ''```python\<newline>'' @
     prompt @
     ''\<newline>'' @
     ''```\<newline>'' @
     ''[/INST]\<newline>'' @
     ''```python\<newline>''"

definition Zyte_prompt :: "string \<Rightarrow> string" where
  "Zyte_prompt prompt =
     ''<|system|>You are an intelligent programming assistant to produce Python algorithmic solutions</s>\<newline>'' @
     ''<|user|>Can you complete the following Python function?\<newline>'' @
     ''```python\<newline>'' @
     prompt @
     ''\<newline>'' @
     ''```\<newline>'' @
     ''</s>\<newline>'' @
     ''<|assistant|>\<newline>'' @
     ''```python\<newline>''"

definition OpenChat_prompt :: "string \<Rightarrow> string" where
  "OpenChat_prompt prompt =
     ''GPT4 Correct User: Can you complete the following Python function?\<newline>'' @
     ''```python\<newline>'' @
     prompt @
     ''\<newline>'' @
     ''```\<newline>'' @
     ''<|end_of_turn|>GPT4 Correct Assistant:\<newline>'' @
     ''```python\<newline>''"

definition Solar_prompt :: "string \<Rightarrow> string" where
  "Solar_prompt prompt =
     ''<s> ### User:\<newline>'' @
     ''Can you solve and complete the Python function below?\<newline>'' @
     ''```python\<newline>'' @
     prompt @
     ''\<newline>'' @
     ''```\<newline>'' @
     ''\<newline>'' @
     ''### Assistant:\<newline>'' @
     ''Sure!\<newline>'' @
     ''```python\<newline>''"

definition Alpaca_prompt :: "string \<Rightarrow> string" where
  "Alpaca_prompt prompt =
     ''Below is an instruction that describes a task. Write a response that appropriately completes request.\<newline>'' @
     ''\<newline>'' @
     ''### Instruction:\<newline>'' @
     ''Create a Python script for this problem:\<newline>'' @
     prompt @
     ''\<newline>'' @
     ''\<newline>'' @
     ''### Response:\<newline>'' @
     ''```python\<newline>''"

definition WhiteRabbitNeo_prompt :: "string \<Rightarrow> string" where
  "WhiteRabbitNeo_prompt prompt =
     ''You code like a superhero!\<newline>'' @
     ''USER:\<newline>'' @
     ''Create a Python script to solve this problem:\<newline>'' @
     ''```python\<newline>'' @
     prompt @
     ''\<newline>'' @
     ''```\<newline>'' @
     ''ASSISTANT:\<newline>'' @
     ''```python\<newline>''"

definition DeepSeekInstruct_prompt :: "string \<Rightarrow> string" where
  "DeepSeekInstruct_prompt prompt =
     ''You are an AI programming assistant, utilizing the DeepSeek Coder model, developed by DeepSeek Company, and you only answer questions related to computer science. For politically sensitive questions, security and privacy issues, and other non-computer science questions, you will refuse to answer.\<newline>'' @
     ''### Instruction:\<newline>'' @
     ''Please complete the following Python function in a markdown style code block:\<newline>'' @
     ''```python\<newline>'' @
     prompt @
     ''\<newline>'' @
     ''```\<newline>'' @
     ''### Response:\<newline>'' @
     ''```python\<newline>''"

definition Magicoder_prompt :: "string \<Rightarrow> string" where
  "Magicoder_prompt prompt =
     ''You are an exceptionally intelligent coding assistant that consistently delivers accurate and reliable responses to user instructions.\<newline>'' @
     ''\<newline>'' @
     ''@@ Instruction\<newline>'' @
     prompt @
     ''\<newline>'' @
     ''\<newline>'' @
     ''@@ Response\<newline>'' @
     ''```python\<newline>'' @
     ''        ''"

definition Code_prompt :: "string \<Rightarrow> string" where
  "Code_prompt prompt =
     ''This is a conversation with your helpful AI assistant. AI assistant can generate Python Code along with necessary explanation.\<newline>'' @
     ''\<newline>'' @
     ''Context\<newline>'' @
     ''You are a helpful AI assistant.\<newline>'' @
     ''\<newline>'' @
     ''USER:\<newline>'' @
     ''```python\<newline>'' @
     prompt @
     ''\<newline>'' @
     ''```\<newline>'' @
     ''ASSISTANT:\<newline>'' @
     ''```python\<newline>''"

definition XwinCoder_prompt :: "string \<Rightarrow> string" where
  "XwinCoder_prompt prompt =
     ''<system>: You are an AI coding assistant that helps people with programming. Write a response that appropriately completes the user'' @
     [CHR 0x27] @
     ''s request.\<newline>'' @
     ''<user>: Complete the following code for me and return a fully runable code.\<newline>'' @
     ''```python\<newline>'' @
     prompt @
     ''\<newline>'' @
     ''```\<newline>'' @
     ''<AI>:\<newline>'' @
     ''```python\<newline>''"

definition OpenCodeInterpreterDecoder_prompt :: "string \<Rightarrow> string" where
  "OpenCodeInterpreterDecoder_prompt prompt =
     ''You are an exceptionally intelligent coding assistant that consistently delivers accurate and reliable responses to user instructions.\<newline>'' @
     ''\<newline>'' @
     ''@@ Instruction\<newline>'' @
     ''Here is a Python programming problem to solve:\<newline>'' @
     ''```python\<newline>'' @
     prompt @
     ''\<newline>'' @
     ''```\<newline>'' @
     ''Please implement this function in a Python markdown code block starting with \"```python\" and follow the function/input/output formats.\<newline>'' @
     ''\<newline>'' @
     ''@@ Response\<newline>''"

definition CodeGemma_prompt :: "string \<Rightarrow> string" where
  "CodeGemma_prompt prompt =
     ''### Instruction\<newline>'' @
     prompt @
     ''\<newline>'' @
     ''### Response\<newline>''"

section \<open>The collaborators of \<open>codegen\<close>\<close>

text \<open>
  The arguments the code passes to each collaborator that bear on the decoding (the
  constant flags \<open>use_tqdm\<close>, \<open>output_scores\<close>, \<open>return_dict_in_generate\<close>, \<open>top_k\<close>,
  \<open>repetition_penalty\<close> and the padding token ids are left out).
\<close>

record SamplingParams =
  sp_temperature :: real
  sp_max_tokens :: int
  sp_top_p :: real
  sp_stop :: "string list"

record 't generate_args =
  g_input_tokens :: "'t list"
  g_max_new_tokens :: int
  g_stopping_criteria :: "'t EndOfFunctionCriteria"
  g_do_sample :: bool
  g_top_p :: "real option"
  g_temperature :: "real option"
  g_num_return_sequences :: int

record openai_args =
  oa_message :: string
  oa_model :: string
  oa_max_tokens :: int
  oa_temperature :: real
  oa_n :: int
  oa_response_format :: string

record mistral_args =
  ms_model :: string
  ms_content :: string
  ms_max_tokens :: int
  ms_top_p :: "real option"
  ms_temperature :: "real option"

record anthropic_args =
  an_model :: string
  an_content :: string
  an_max_tokens :: int
  an_temperature :: real
  an_stop_sequences :: "string list"

text \<open>
  The collaborators, each a function of its arguments that returns its answer or raises:
  \<^item> \<open>llm_generate\<close>: \<open>self.llm.generate\<close> of vLLM, giving \<open>x.outputs[0].text\<close> for each output;
  \<^item> \<open>hf_tokenizer\<close> and \<open>model_generate\<close>: the tokenizer and \<open>self.model.generate\<close> of
    transformers, giving \<open>raw_outputs.sequences\<close>;
  \<^item> \<open>make_auto_request\<close>: \<open>openai_request.make_auto_request\<close>, giving the
    \<open>message.content\<close> of each choice;
  \<^item> \<open>json_code\<close>: the value of \<open>"code"\<close> when \<open>json.loads(content)\<close> yields an object
    whose \<open>"code"\<close> is a string, and \<open>None\<close> in every case the code falls through to
    \<open>outputs.append(content)\<close>;
  \<^item> \<open>client_chat\<close> and \<open>anthropic_request\<close>: the remote chat calls, giving the text of the
    answer. They take the number of the call within one \<open>codegen\<close>, since equal requests
    need not get equal answers.
\<close>

record 't backend =
  llm_generate :: "string list \<Rightarrow> SamplingParams \<Rightarrow> py_error + string list"
  hf_tokenizer :: "'t Tokenizer"
  model_generate :: "'t generate_args \<Rightarrow> py_error + 't list list"
  make_auto_request :: "openai_args \<Rightarrow> py_error + string list"
  json_code :: "string \<Rightarrow> string option"
  client_chat :: "nat \<Rightarrow> mistral_args \<Rightarrow> py_error + string"
  anthropic_request :: "nat \<Rightarrow> anthropic_args \<Rightarrow> py_error + string"

section \<open>\<open>codegen\<close> on vLLM\<close>

definition VLlmDecoder_codegen ::
  "'t backend \<Rightarrow> string list \<Rightarrow> decoder \<Rightarrow> string \<Rightarrow> bool \<Rightarrow> int \<Rightarrow> py_error + string list" where
  "VLlmDecoder_codegen be E self prompt do_sample num_samples =
     (if do_sample \<and> \<not> temperature self > 0 then Inl AssertionError
      else
        (let n = min (batch_size self) num_samples in
         case llm_generate be (replicate (nat n) prompt)
                \<lparr>sp_temperature = temperature self, sp_max_tokens = max_new_tokens self,
                 sp_top_p = (if do_sample then 0.95 else 1.0), sp_stop = eos_of E self\<rparr> of
           Inl e \<Rightarrow> Inl e
         | Inr texts \<Rightarrow> Inr (map (str_replace [CHR 0x09] ''    '') texts)))"

text \<open>
  The templates. \<open>ChatML\<close>, \<open>CodeLlamaInstruct70B\<close>, \<open>CodeLlamaInstructSmall\<close>, \<open>Zyte\<close>,
  \<open>OpenChat\<close> and \<open>Solar\<close> assert the temperature themselves before they format the
  prompt; the others leave the assertion to \<open>VLlmDecoder.codegen\<close>.
\<close>

definition ChatML_codegen ::
  "'t backend \<Rightarrow> string list \<Rightarrow> decoder \<Rightarrow> string \<Rightarrow> bool \<Rightarrow> int \<Rightarrow> py_error + string list" where
  "ChatML_codegen be E self prompt do_sample num_samples =
     (if do_sample \<and> \<not> temperature self > 0 then Inl AssertionError
      else VLlmDecoder_codegen be E self (ChatML_prompt prompt) do_sample num_samples)"

definition CodeLlamaInstruct70B_codegen ::
  "'t backend \<Rightarrow> string list \<Rightarrow> decoder \<Rightarrow> string \<Rightarrow> bool \<Rightarrow> int \<Rightarrow> py_error + string list" where
  "CodeLlamaInstruct70B_codegen be E self prompt do_sample num_samples =
     (if do_sample \<and> \<not> temperature self > 0 then Inl AssertionError
      else VLlmDecoder_codegen be E self (CodeLlamaInstruct70B_prompt prompt) do_sample
             num_samples)"

definition CodeLlamaInstructSmall_codegen ::
  "'t backend \<Rightarrow> string list \<Rightarrow> decoder \<Rightarrow> string \<Rightarrow> bool \<Rightarrow> int \<Rightarrow> py_error + string list" where
  "CodeLlamaInstructSmall_codegen be E self prompt do_sample num_samples =
     (if do_sample \<and> \<not> temperature self > 0 then Inl AssertionError
      else VLlmDecoder_codegen be E self (CodeLlamaInstructSmall_prompt prompt) do_sample
             num_samples)"

definition Zyte_codegen ::
  "'t backend \<Rightarrow> string list \<Rightarrow> decoder \<Rightarrow> string \<Rightarrow> bool \<Rightarrow> int \<Rightarrow> py_error + string list" where
  "Zyte_codegen be E self prompt do_sample num_samples =
     (if do_sample \<and> \<not> temperature self > 0 then Inl AssertionError
      else VLlmDecoder_codegen be E self (Zyte_prompt prompt) do_sample num_samples)"

definition OpenChat_codegen ::
  "'t backend \<Rightarrow> string list \<Rightarrow> decoder \<Rightarrow> string \<Rightarrow> bool \<Rightarrow> int \<Rightarrow> py_error + string list" where
  "OpenChat_codegen be E self prompt do_sample num_samples =
     (if do_sample \<and> \<not> temperature self > 0 then Inl AssertionError
      else VLlmDecoder_codegen be E self (OpenChat_prompt prompt) do_sample num_samples)"

definition Solar_codegen ::
  "'t backend \<Rightarrow> string list \<Rightarrow> decoder \<Rightarrow> string \<Rightarrow> bool \<Rightarrow> int \<Rightarrow> py_error + string list" where
  "Solar_codegen be E self prompt do_sample num_samples =
     (if do_sample \<and> \<not> temperature self > 0 then Inl AssertionError
      else VLlmDecoder_codegen be E self (Solar_prompt prompt) do_sample num_samples)"

definition Alpaca_codegen ::
  "'t backend \<Rightarrow> string list \<Rightarrow> decoder \<Rightarrow> string \<Rightarrow> bool \<Rightarrow> int \<Rightarrow> py_error + string list" where
  "Alpaca_codegen be E self prompt do_sample num_samples =
     VLlmDecoder_codegen be E self (Alpaca_prompt prompt) do_sample num_samples"

definition WhiteRabbitNeo_codegen ::
  "'t backend \<Rightarrow> string list \<Rightarrow> decoder \<Rightarrow> string \<Rightarrow> bool \<Rightarrow> int \<Rightarrow> py_error + string list" where
  "WhiteRabbitNeo_codegen be E self prompt do_sample num_samples =
     VLlmDecoder_codegen be E self (WhiteRabbitNeo_prompt prompt) do_sample num_samples"

definition DeepSeekInstruct_codegen ::
  "'t backend \<Rightarrow> string list \<Rightarrow> decoder \<Rightarrow> string \<Rightarrow> bool \<Rightarrow> int \<Rightarrow> py_error + string list" where
  "DeepSeekInstruct_codegen be E self prompt do_sample num_samples =
     VLlmDecoder_codegen be E self (DeepSeekInstruct_prompt prompt) do_sample num_samples"

definition Magicoder_codegen ::
  "'t backend \<Rightarrow> string list \<Rightarrow> decoder \<Rightarrow> string \<Rightarrow> bool \<Rightarrow> int \<Rightarrow> py_error + string list" where
  "Magicoder_codegen be E self prompt do_sample num_samples =
     VLlmDecoder_codegen be E self (Magicoder_prompt prompt) do_sample num_samples"

definition Code_codegen ::
  "'t backend \<Rightarrow> string list \<Rightarrow> decoder \<Rightarrow> string \<Rightarrow> bool \<Rightarrow> int \<Rightarrow> py_error + string list" where
  "Code_codegen be E self prompt do_sample num_samples =
     VLlmDecoder_codegen be E self (Code_prompt prompt) do_sample num_samples"

definition XwinCoder_codegen ::
  "'t backend \<Rightarrow> string list \<Rightarrow> decoder \<Rightarrow> string \<Rightarrow> bool \<Rightarrow> int \<Rightarrow> py_error + string list" where
  "XwinCoder_codegen be E self prompt do_sample num_samples =
     VLlmDecoder_codegen be E self (XwinCoder_prompt prompt) do_sample num_samples"

definition CodeGemma_codegen ::
  "'t backend \<Rightarrow> string list \<Rightarrow> decoder \<Rightarrow> string \<Rightarrow> bool \<Rightarrow> int \<Rightarrow> py_error + string list" where
  "CodeGemma_codegen be E self prompt do_sample num_samples =
     VLlmDecoder_codegen be E self (CodeGemma_prompt prompt) do_sample num_samples"

section \<open>\<open>codegen\<close> on transformers\<close>

text \<open>
  The end of every \<open>codegen\<close> of this family: the prompt's tokens are cut off each
  sequence, the rest is decoded and the stop markers are removed.
  \<^verbatim>\<open>
    gen_seqs = raw_outputs.sequences[:, len(input_tokens[0]) :]
    gen_strs = self.tokenizer.batch_decode(gen_seqs, skip_special_tokens=self.skip_special_tokens)
    outputs = []
    for output in gen_strs: ...
  \<close>
\<close>

definition decode_outputs ::
  "'t backend \<Rightarrow> string list \<Rightarrow> decoder \<Rightarrow> nat \<Rightarrow> 't list list \<Rightarrow> string list" where
  "decode_outputs be E self n sequences =
     (let gen_seqs = map (drop n) sequences;
          gen_strs = map (decode (hf_tokenizer be) (skip_special_tokens self)) gen_seqs
      in map (remove_eos (eos_of E self)) gen_strs)"

text \<open>The stopping criterion every \<open>codegen\<close> of this family builds for its call.\<close>

definition scores :: "'t backend \<Rightarrow> string list \<Rightarrow> decoder \<Rightarrow> 't list \<Rightarrow> 't EndOfFunctionCriteria" where
  "scores be E self toks =
     EndOfFunctionCriteria_init (length toks) (eos_of E self) (hf_tokenizer be)"

text \<open>
  The call of \<open>self.model.generate\<close> with the arguments \<open>args\<close>, followed by that end:
  \<open>len(input_tokens[0])\<close> is the number of prompt tokens passed in \<open>args\<close>.
\<close>

definition transformers_generate ::
  "'t backend \<Rightarrow> string list \<Rightarrow> decoder \<Rightarrow> 't generate_args \<Rightarrow> py_error + string list" where
  "transformers_generate be E self args =
     (case model_generate be args of
        Inl e \<Rightarrow> Inl e
      | Inr sequences \<Rightarrow>
          Inr (decode_outputs be E self (length (g_input_tokens args)) sequences))"

definition HFTorchDecoder_codegen ::
  "'t backend \<Rightarrow> string list \<Rightarrow> decoder \<Rightarrow> string \<Rightarrow> bool \<Rightarrow> int \<Rightarrow> py_error + string list" where
  "HFTorchDecoder_codegen be E self prompt do_sample num_samples =
     (if temperature self = 0 \<and> (do_sample \<or> num_samples \<noteq> 1) then Inl AssertionError
      else
        (let toks = encode (hf_tokenizer be) True prompt in
         transformers_generate be E self
           \<lparr>g_input_tokens = toks, g_max_new_tokens = max_new_tokens self,
            g_stopping_criteria = scores be E self toks, g_do_sample = do_sample,
            g_top_p = (if do_sample then Some 0.95 else None),
            g_temperature = (if do_sample then Some (temperature self) else None),
            g_num_return_sequences = min (batch_size self) num_samples\<rparr>))"

text \<open>\<open>IncoderDecoder.codegen\<close> asserts nothing and always passes the temperature.\<close>

definition IncoderDecoder_codegen ::
  "'t backend \<Rightarrow> string list \<Rightarrow> decoder \<Rightarrow> string \<Rightarrow> bool \<Rightarrow> int \<Rightarrow> py_error + string list" where
  "IncoderDecoder_codegen be E self prompt do_sample num_samples =
     (let toks = encode (hf_tokenizer be) True
                   (prompt @ ''<|mask:0|>'' @ ''<|mask:1|><|mask:0|>'') in
      transformers_generate be E self
        \<lparr>g_input_tokens = toks, g_max_new_tokens = max_new_tokens self,
         g_stopping_criteria = scores be E self toks, g_do_sample = do_sample,
         g_top_p = Some 0.95, g_temperature = Some (temperature self),
         g_num_return_sequences = min (batch_size self) num_samples\<rparr>)"

definition Codegen2Decoder_codegen ::
  "'t backend \<Rightarrow> string list \<Rightarrow> decoder \<Rightarrow> string \<Rightarrow> bool \<Rightarrow> int \<Rightarrow> py_error + string list" where
  "Codegen2Decoder_codegen be E self prompt do_sample num_samples =
     (if temperature self = 0 \<and> (do_sample \<or> num_samples \<noteq> 1) then Inl AssertionError
      else
        (let toks = encode (hf_tokenizer be) True
                      (prompt @ ''<mask_1>'' @ ''<|endoftext|><sep><mask_1>'') in
         transformers_generate be E self
           \<lparr>g_input_tokens = toks, g_max_new_tokens = max_new_tokens self,
            g_stopping_criteria = scores be E self toks, g_do_sample = do_sample,
            g_top_p = Some 0.95, g_temperature = Some (temperature self),
            g_num_return_sequences = min (batch_size self) num_samples\<rparr>))"

text \<open>
  \<open>SantaCoder.codegen\<close> also passes \<open>truncate_before_pattern\<close> to \<open>batch_decode\<close>; what
  the tokenizer makes of it is its own business.
\<close>

definition SantaCoder_codegen ::
  "'t backend \<Rightarrow> string list \<Rightarrow> decoder \<Rightarrow> string \<Rightarrow> bool \<Rightarrow> int \<Rightarrow> py_error + string list" where
  "SantaCoder_codegen be E self prompt do_sample num_samples =
     (if temperature self = 0 \<and> (do_sample \<or> num_samples \<noteq> 1) then Inl AssertionError
      else
        (let toks = encode (hf_tokenizer be) True
                      (''<fim-prefix>'' @ prompt @ ''<fim-suffix>\<newline><fim-middle>'') in
         transformers_generate be E self
           \<lparr>g_input_tokens = toks, g_max_new_tokens = max_new_tokens self,
            g_stopping_criteria = scores be E self toks, g_do_sample = do_sample,
            g_top_p = Some 0.95, g_temperature = Some (temperature self),
            g_num_return_sequences = min (batch_size self) num_samples\<rparr>))"

text \<open>
  \<open>StarCoderInfill.codegen\<close> fills \<open>kwargs\<close> with \<open>top_p\<close> and the temperature when it
  samples, and then does not pass \<open>kwargs\<close> to \<open>generate\<close>.
\<close>

definition StarCoderInfill_codegen ::
  "'t backend \<Rightarrow> string list \<Rightarrow> decoder \<Rightarrow> string \<Rightarrow> bool \<Rightarrow> int \<Rightarrow> py_error + string list" where
  "StarCoderInfill_codegen be E self prompt do_sample num_samples =
     (if temperature self = 0 \<and> (do_sample \<or> num_samples \<noteq> 1) then Inl AssertionError
      else
        (let toks = encode (hf_tokenizer be) True
                      (''<fim_prefix>'' @ prompt @ ''<fim_suffix><fim_middle>'') in
         transformers_generate be E self
           \<lparr>g_input_tokens = toks, g_max_new_tokens = max_new_tokens self,
            g_stopping_criteria = scores be E self toks, g_do_sample = do_sample,
            g_top_p = None, g_temperature = None,
            g_num_return_sequences = min (batch_size self) num_samples\<rparr>))"

text \<open>\<open>Speechless.codegen\<close> repeats \<open>HFTorchDecoder.codegen\<close> line by line.\<close>

definition Speechless_codegen ::
  "'t backend \<Rightarrow> string list \<Rightarrow> decoder \<Rightarrow> string \<Rightarrow> bool \<Rightarrow> int \<Rightarrow> py_error + string list" where
  "Speechless_codegen be E self prompt do_sample num_samples =
     (if temperature self = 0 \<and> (do_sample \<or> num_samples \<noteq> 1) then Inl AssertionError
      else
        (let toks = encode (hf_tokenizer be) True prompt in
         transformers_generate be E self
           \<lparr>g_input_tokens = toks, g_max_new_tokens = max_new_tokens self,
            g_stopping_criteria = scores be E self toks, g_do_sample = do_sample,
            g_top_p = (if do_sample then Some 0.95 else None),
            g_temperature = (if do_sample then Some (temperature self) else None),
            g_num_return_sequences = min (batch_size self) num_samples\<rparr>))"

definition OpenCodeInterpreterDecoder_codegen ::
  "'t backend \<Rightarrow> string list \<Rightarrow> decoder \<Rightarrow> string \<Rightarrow> bool \<Rightarrow> int \<Rightarrow> py_error + string list" where
  "OpenCodeInterpreterDecoder_codegen be E self prompt do_sample num_samples =
     HFTorchDecoder_codegen be E self (OpenCodeInterpreterDecoder_prompt prompt) do_sample
       num_samples"

section \<open>\<open>CodeT5P.codegen\<close> and its retry loop\<close>

text \<open>
  \<open>int(max_new_tokens * 0.8)\<close>. \<open>int\<close> truncates towards zero. The product is taken
  exactly; the double arithmetic of Python gives the same integer for every budget below
  \<open>2^50\<close> (the budgets of this module are 512 and 1024).
\<close>

definition int_of_float :: "real \<Rightarrow> int" where
  "int_of_float x = (if 0 \<le> x then \<lfloor>x\<rfloor> else \<lceil>x\<rceil>)"

definition reduced :: "int \<Rightarrow> int" where
  "reduced max_new = int_of_float (of_int max_new * 0.8)"

text \<open>The test of the handler: a \<open>RuntimeError\<close> whose text holds \<open>CUDA out of memory\<close>.\<close>

definition is_oom :: "py_error + 'a \<Rightarrow> bool" where
  "is_oom r =
     (case r of
        Inl (RuntimeError msg) \<Rightarrow> str_in ''CUDA out of memory'' msg
      | _ \<Rightarrow> False)"

lemma reduced_less: "0 < n \<Longrightarrow> reduced n < n"
proof -
  assume pos: "0 < n"
  then have "(of_int n :: real) * 0.8 < of_int n" by simp
  moreover from pos have "0 \<le> (of_int n :: real) * 0.8" by simp
  ultimately show ?thesis
    by (simp add: reduced_def int_of_float_def floor_less_iff)
qed

text \<open>
  The loop
  \<^verbatim>\<open>
    while max_new_tokens > 0:
        try:
            raw_outputs = self.model.generate(..., max_new_tokens=max_new_tokens, ...)
        except RuntimeError as e:
            if "CUDA out of memory" in str(e):
                max_new_tokens = int(max_new_tokens * 0.8)
                continue
            else:
                raise e
        break
    gen_seqs = raw_outputs.sequences[...]
  \<close>
  with \<open>generate\<close> as a function of the budget. It returns the budgets it tried, in
  order, and the outcome: \<open>raw_outputs\<close>, or the exception that leaves the loop. When the
  loop ends because the budget is not positive, \<open>raw_outputs\<close> was never bound and the
  next line raises \<open>UnboundLocalError\<close>.
\<close>

function generate_retry ::
  "(int \<Rightarrow> py_error + 'a) \<Rightarrow> int \<Rightarrow> int list \<times> (py_error + 'a)" where
  "generate_retry generate max_new =
     (if max_new > 0 then
        (let r = generate max_new in
         if is_oom r then
           (case generate_retry generate (reduced max_new) of
              (tried, outcome) \<Rightarrow> (max_new # tried, outcome))
         else ([max_new], r))
      else ([], Inl UnboundLocalError))"
  by pat_completeness auto
termination
  by (relation "measure (\<lambda>(generate, max_new). nat max_new)") (auto simp: reduced_less)

declare generate_retry.simps [simp del]

definition CodeT5P_codegen ::
  "'t backend \<Rightarrow> string list \<Rightarrow> decoder \<Rightarrow> string \<Rightarrow> bool \<Rightarrow> int \<Rightarrow> py_error + string list" where
  "CodeT5P_codegen be E self prompt do_sample num_samples =
     (if temperature self = 0 \<and> (do_sample \<or> num_samples \<noteq> 1) then Inl AssertionError
      else
        (let toks = encode (hf_tokenizer be) True (str_replace ''    '' [CHR 0x09] prompt) in
         case snd (generate_retry
                (\<lambda>max_new. model_generate be
                   \<lparr>g_input_tokens = toks, g_max_new_tokens = max_new,
                    g_stopping_criteria = scores be E self toks, g_do_sample = do_sample,
                    g_top_p = Some 0.95, g_temperature = Some (temperature self),
                    g_num_return_sequences = min (batch_size self) num_samples\<rparr>)
                (max_new_tokens self)) of
           Inl e \<Rightarrow> Inl e
         | Inr sequences \<Rightarrow>
             Inr (map (str_replace [CHR 0x09] ''    '')
                    (decode_outputs be E self (length toks) sequences))))"

section \<open>\<open>codegen\<close> on the remote services\<close>

definition OpenAIChatDecoder_codegen ::
  "'t backend \<Rightarrow> string list \<Rightarrow> decoder \<Rightarrow> string \<Rightarrow> bool \<Rightarrow> int \<Rightarrow> py_error + string list" where
  "OpenAIChatDecoder_codegen be E self prompt do_sample num_samples =
     (if do_sample \<and> \<not> temperature self > 0 then Inl AssertionError
      else
        (let n = min (batch_size self) num_samples;
             fmt = (if name self = ''gpt-4-1106-preview'' then ''json_object'' else ''text'');
             message =
               (if fmt = ''json_object''
                then ''Please complete the following code snippet by generating JSON like {\"code\": \"\"}''
                else ''Please generate code to complete the following problem:'') @
               ''\<newline>```python\<newline>'' @ str_strip prompt @ ''\<newline>```''
         in
         case make_auto_request be
                \<lparr>oa_message = message, oa_model = name self,
                 oa_max_tokens = max_new_tokens self, oa_temperature = temperature self,
                 oa_n = n, oa_response_format = fmt\<rparr> of
           Inl e \<Rightarrow> Inl e
         | Inr contents \<Rightarrow>
             Inr (map (\<lambda>content.
                        if fmt = ''json_object''
                        then (case json_code be content of
                                Some code \<Rightarrow> prompt @ ''\<newline>'' @ code
                              | None \<Rightarrow> content)
                        else content)
                    contents)))"

text \<open>
  The loop \<open>for _ in range(batch_size)\<close> of the two chat decoders: one call per round, its
  text appended to \<open>outputs\<close>; an exception of a call leaves the loop.
\<close>

fun request_loop ::
  "(nat \<Rightarrow> py_error + string) \<Rightarrow> nat list \<Rightarrow> string list \<Rightarrow> py_error + string list" where
  "request_loop call [] outputs = Inr outputs"
| "request_loop call (i # rest) outputs =
     (case call i of
        Inl e \<Rightarrow> Inl e
      | Inr content \<Rightarrow> request_loop call rest (outputs @ [content]))"

text \<open>
  \<open>MistralChatDecoder.codegen\<close> assigns to \<open>self.temperature\<close>, so it returns the decoder
  as well.
\<close>

definition MistralChatDecoder_codegen ::
  "'t backend \<Rightarrow> string list \<Rightarrow> decoder \<Rightarrow> string \<Rightarrow> bool \<Rightarrow> int \<Rightarrow>
   decoder \<times> (py_error + string list)" where
  "MistralChatDecoder_codegen be E self prompt do_sample num_samples =
     (if do_sample \<and> \<not> temperature self > 0 then (self, Inl AssertionError)
      else
        (let self1 = (if do_sample then self else self\<lparr>temperature := 0\<rparr>);
             n = min (batch_size self1) num_samples
         in
         (self1,
          request_loop
            (\<lambda>i. client_chat be i
               \<lparr>ms_model = name self1,
                ms_content =
                  ''Please generate code to solve the following problem in a Python markdown block:'' @
                  ''\<newline>```python\<newline>'' @ str_strip prompt @ ''\<newline>```'',
                ms_max_tokens = max_new_tokens self1,
                ms_top_p = (if do_sample then Some 0.95 else None),
                ms_temperature = (if do_sample then Some (temperature self) else None)\<rparr>)
            [0..<nat n] [])))"

definition AnthropicMessageDecoder_codegen ::
  "'t backend \<Rightarrow> string list \<Rightarrow> decoder \<Rightarrow> string \<Rightarrow> bool \<Rightarrow> int \<Rightarrow> py_error + string list" where
  "AnthropicMessageDecoder_codegen be E self prompt do_sample num_samples =
     (if do_sample \<and> \<not> temperature self > 0 then Inl AssertionError
      else
        (let n = min (batch_size self) num_samples in
         if \<not> do_sample \<and> n \<noteq> 1 then Inl AssertionError
         else
           request_loop
             (\<lambda>i. anthropic_request be i
                \<lparr>an_model = name self,
                 an_content =
                   ''Please generate code to complete the following problem wrapped in a Python markdown block:'' @
                   ''\<newline>```python\<newline>'' @ str_strip prompt @ ''\<newline>```\<newline>'',
                 an_max_tokens = max_new_tokens self, an_temperature = temperature self,
                 an_stop_sequences = [''\<newline>```\<newline>'', ''\<newline>if '']\<rparr>)
             [0..<nat n] []))"

section \<open>The method \<open>codegen\<close> of a decoder\<close>

text \<open>
  Dispatch on the class. The result is the decoder after the call and the list of
  completions, or the exception raised. No \<open>codegen\<close> but the one of
  \<open>MistralChatDecoder\<close> assigns to an attribute of \<open>self\<close>, and none changes the module's
  list \<open>EOS\<close>.
\<close>

definition codegen ::
  "'t backend \<Rightarrow> string list \<Rightarrow> decoder \<Rightarrow> string \<Rightarrow> bool \<Rightarrow> int \<Rightarrow>
   decoder \<times> (py_error + string list)" where
  "codegen be E self prompt do_sample num_samples =
     (case cls self of
        VLlmDecoder \<Rightarrow> (self, VLlmDecoder_codegen be E self prompt do_sample num_samples)
      | ChatML \<Rightarrow> (self, ChatML_codegen be E self prompt do_sample num_samples)
      | CodeLlamaInstruct70B \<Rightarrow>
          (self, CodeLlamaInstruct70B_codegen be E self prompt do_sample num_samples)
      | CodeLlamaInstructSmall \<Rightarrow>
          (self, CodeLlamaInstructSmall_codegen be E self prompt do_sample num_samples)
      | Zyte \<Rightarrow> (self, Zyte_codegen be E self prompt do_sample num_samples)
      | OpenChat \<Rightarrow> (self, OpenChat_codegen be E self prompt do_sample num_samples)
      | Solar \<Rightarrow> (self, Solar_codegen be E self prompt do_sample num_samples)
      | Alpaca \<Rightarrow> (self, Alpaca_codegen be E self prompt do_sample num_samples)
      | WhiteRabbitNeo \<Rightarrow> (self, WhiteRabbitNeo_codegen be E self prompt do_sample num_samples)
      | HFTorchDecoder \<Rightarrow> (self, HFTorchDecoder_codegen be E self prompt do_sample num_samples)
      | DeepSeekInstruct \<Rightarrow>
          (self, DeepSeekInstruct_codegen be E self prompt do_sample num_samples)
      | Magicoder \<Rightarrow> (self, Magicoder_codegen be E self prompt do_sample num_samples)
      | OpenAIChatDecoder \<Rightarrow>
          (self, OpenAIChatDecoder_codegen be E self prompt do_sample num_samples)
      | MistralChatDecoder \<Rightarrow> MistralChatDecoder_codegen be E self prompt do_sample num_samples
      | AnthropicMessageDecoder \<Rightarrow>
          (self, AnthropicMessageDecoder_codegen be E self prompt do_sample num_samples)
      | IncoderDecoder \<Rightarrow> (self, IncoderDecoder_codegen be E self prompt do_sample num_samples)
      | Codegen2Decoder \<Rightarrow> (self, Codegen2Decoder_codegen be E self prompt do_sample num_samples)
      | SantaCoder \<Rightarrow> (self, SantaCoder_codegen be E self prompt do_sample num_samples)
      | StarCoderInfill \<Rightarrow> (self, StarCoderInfill_codegen be E self prompt do_sample num_samples)
      | Speechless \<Rightarrow> (self, Speechless_codegen be E self prompt do_sample num_samples)
      | CodeT5P \<Rightarrow> (self, CodeT5P_codegen be E self prompt do_sample num_samples)
      | Code \<Rightarrow> (self, Code_codegen be E self prompt do_sample num_samples)
      | XwinCoder \<Rightarrow> (self, XwinCoder_codegen be E self prompt do_sample num_samples)
      | OpenCodeInterpreterDecoder \<Rightarrow>
          (self, OpenCodeInterpreterDecoder_codegen be E self prompt do_sample num_samples)
      | CodeGemma \<Rightarrow> (self, CodeGemma_codegen be E self prompt do_sample num_samples))"

section \<open>\<open>make_model\<close>\<close>

text \<open>
  \<open>re.compile(pattern).findall(name)[0]\<close>: the groups of the leftmost match of the
  pattern in the name, \<open>IndexError\<close> when the pattern matches nowhere. \<open>match_at\<close> says
  whether the pattern matches at the start of a text, and gives the groups.
\<close>

fun findall_first :: "(string \<Rightarrow> 'a option) \<Rightarrow> string \<Rightarrow> py_error + 'a" where
  "findall_first match_at [] =
     (case match_at [] of Some g \<Rightarrow> Inr g | None \<Rightarrow> Inl IndexError)"
| "findall_first match_at (c # cs) =
     (case match_at (c # cs) of Some g \<Rightarrow> Inr g | None \<Rightarrow> findall_first match_at cs)"

text \<open>
  The pattern \<^verbatim>\<open>starcoder2-(\d+)b\<close> at the start of \<open>s\<close>: the longest run of digits
  after the literal, which a \<open>b\<close> must follow (a shorter run is followed by a digit).
\<close>

definition match_starcoder2 :: "string \<Rightarrow> string option" where
  "match_starcoder2 s =
     (if prefix ''starcoder2-'' s then
        (let r = drop (length ''starcoder2-'') s; digits = takeWhile is_digit r
         in if digits \<noteq> [] \<and> prefix ''b'' (dropWhile is_digit r) then Some digits else None)
      else None)"

text \<open>
  The pattern \<^verbatim>\<open>deepseek-coder-(\d+\.?\d*)b(.*)\<close> at the start of \<open>s\<close>. After the
  longest run of digits comes either \<open>b\<close>, or a dot, a second (possibly empty) run of
  digits and \<open>b\<close>; no other split of the digits lets \<open>b\<close> match. The second group runs to
  the end of the line.
\<close>

definition match_deepseek_coder :: "string \<Rightarrow> (string \<times> string) option" where
  "match_deepseek_coder s =
     (if prefix ''deepseek-coder-'' s then
        (let r = drop (length ''deepseek-coder-'') s;
             d1 = takeWhile is_digit r; r1 = dropWhile is_digit r;
             d2 = takeWhile is_digit (drop 1 r1); r2 = dropWhile is_digit (drop 1 r1)
         in if d1 = [] then None
            else if prefix ''.'' r1 \<and> prefix ''b'' r2
            then Some (d1 @ ''.'' @ d2, takeWhile (\<lambda>c. c \<noteq> CHR 0x0A) (drop 1 r2))
            else if prefix ''b'' r1
            then Some (d1, takeWhile (\<lambda>c. c \<noteq> CHR 0x0A) (drop 1 r1))
            else None)
      else None)"

text \<open>
  How an f-string prints the float \<open>float(s)\<close> that is not integral, for \<open>s\<close> of the shape
  \<open>digits.digits\<close>: the decimal without leading and trailing zeros. This is what \<open>repr\<close>
  gives for a decimal of at most 15 significant digits that is at least \<open>0.0001\<close>.
\<close>

definition repr_decimal :: "string \<Rightarrow> string" where
  "repr_decimal s =
     (let ip = takeWhile is_digit s; fp = drop (Suc (length ip)) s
      in str_of_nat (int_of_digits ip) @ ''.'' @
         rev (dropWhile (\<lambda>c. c = CHR ''0'') (rev fp)))"

text \<open>The keyword arguments every branch passes: \<open>batch_size\<close> and \<open>temperature\<close>.\<close>

definition kwargs :: "int \<Rightarrow> real \<Rightarrow> kwargs_t" where
  "kwargs bs temp = default_kwargs\<lparr>kw_batch_size := bs, kw_temperature := temp\<rparr>"

text \<open>The first branch for \<open>name.startswith("starcoder")\<close>.\<close>

definition make_starcoder2 ::
  "string \<Rightarrow> kwargs_t \<Rightarrow> string list \<Rightarrow> py_error + decoder \<times> string list" where
  "make_starcoder2 nm kw E =
     (case findall_first match_starcoder2 nm of
        Inl e \<Rightarrow> Inl e
      | Inr digits \<Rightarrow>
          construct VLlmDecoder
            (''bigcode/starcoder2-'' @ str_of_nat (int_of_digits digits) @ ''b'') kw E)"

text \<open>The branch for \<open>name.startswith("code-llama-")\<close>.\<close>

definition make_code_llama ::
  "string \<Rightarrow> kwargs_t \<Rightarrow> string list \<Rightarrow> py_error + decoder \<times> string list" where
  "make_code_llama nm kw E =
     (if suffix ''instruct'' nm then
        (case list_get (str_split CHR ''-'' nm) 2 of
           Inl e \<Rightarrow> Inl e
         | Inr nb \<Rightarrow>
             if \<not> suffix ''b'' nb then Inl AssertionError
             else if nb = ''70b'' then
               construct CodeLlamaInstruct70B ''codellama/CodeLlama-70B-Instruct-hf''
                 (kw\<lparr>kw_conversational := True\<rparr>) E
             else
               construct CodeLlamaInstructSmall (''codellama/CodeLlama-'' @ nb @ ''-Instruct-hf'')
                 (kw\<lparr>kw_conversational := True\<rparr>) E)
      else if \<not> suffix ''b'' nm then Inl AssertionError
      else
        (case list_get (str_split CHR ''-'' nm) (- 1) of
           Inl e \<Rightarrow> Inl e
         | Inr nb \<Rightarrow>
             if prefix ''code-llama-multi'' nm then
               construct VLlmDecoder (''codellama/CodeLlama-'' @ nb @ ''-hf'') kw E
             else construct VLlmDecoder (''codellama/CodeLlama-'' @ nb @ ''-Python-hf'') kw E))"

text \<open>
  The branch for \<open>name.startswith("deepseek-coder")\<close>. \<open>nb\<close> is the float of the first
  group, turned into an \<open>int\<close> when it is integral; the name is formatted from it.
\<close>

definition make_deepseek_coder ::
  "string \<Rightarrow> kwargs_t \<Rightarrow> string list \<Rightarrow> py_error + decoder \<times> string list" where
  "make_deepseek_coder nm kw E =
     (case findall_first match_deepseek_coder nm of
        Inl e \<Rightarrow> Inl e
      | Inr (g1, g2) \<Rightarrow>
          (let nb = float_of_decimal g1;
               nb_str = (if is_integer nb then str_of_nat (nat \<lfloor>nb\<rfloor>) else repr_decimal g1)
           in case list_get (str_split CHR ''-'' g2) (- 1) of
                Inl e \<Rightarrow> Inl e
              | Inr version \<Rightarrow>
                  (let version_suffix = (if prefix ''v'' version then ''-'' @ version else [])
                   in if str_in ''instruct'' nm then
                        construct DeepSeekInstruct
                          (''deepseek-ai/deepseek-coder-'' @ nb_str @ ''b-instruct'' @ version_suffix)
                          (kw\<lparr>kw_conversational := True\<rparr>) E
                      else
                        construct VLlmDecoder
                          (''deepseek-ai/deepseek-coder-'' @ nb_str @ ''b-base'' @ version_suffix)
                          kw E)))"

text \<open>
  \<open>make_model(name, batch_size, temperature)\<close>, branch by branch in the order of the
  source; \<open>E\<close> is the module's list \<open>EOS\<close> before the call. Two branches need a remark.
  \<^item> The second test \<open>name.startswith("starcoder")\<close> repeats the first and is never reached.
  \<^item> The branch for \<open>"codegemma" in name\<close> calls \<open>re.compile\<close>. The two statements
    \<open>import re\<close> in the bodies of earlier branches make \<open>re\<close> a local variable of the whole
    function, the module imports no \<open>re\<close>, and this branch is reached only when those
    statements did not run: the call raises \<open>UnboundLocalError\<close>.
\<close>

definition make_model ::
  "string \<Rightarrow> int \<Rightarrow> real \<Rightarrow> string list \<Rightarrow> py_error + decoder \<times> string list" where
  "make_model nm bs temp E =
    (
     if nm = ''codegen-2b'' then
       construct HFTorchDecoder ''Salesforce/codegen-2B-mono''
         ((kwargs bs temp)\<lparr>kw_dtype := ''float16''\<rparr>) E
     else if nm = ''codegen-6b'' then
       construct HFTorchDecoder ''Salesforce/codegen-6B-mono''
         ((kwargs bs temp)\<lparr>kw_dtype := ''float16''\<rparr>) E
     else if nm = ''codegen-16b'' then
       construct HFTorchDecoder ''Salesforce/codegen-16B-mono''
         ((kwargs bs temp)\<lparr>kw_dtype := ''float16''\<rparr>) E
     else if nm = ''codegen2-1b'' then
       construct Codegen2Decoder ''Salesforce/codegen2-1B''
         ((kwargs bs temp)\<lparr>kw_trust_remote_code := True\<rparr>) E
     else if nm = ''codegen2-3b'' then
       construct Codegen2Decoder ''Salesforce/codegen2-3_7B''
         ((kwargs bs temp)\<lparr>kw_trust_remote_code := True\<rparr>) E
     else if nm = ''codegen2-7b'' then
       construct Codegen2Decoder ''Salesforce/codegen2-7B''
         ((kwargs bs temp)\<lparr>kw_trust_remote_code := True\<rparr>) E
     else if nm = ''codegen2-16b'' then
       construct Codegen2Decoder ''Salesforce/codegen2-16B''
         ((kwargs bs temp)\<lparr>kw_trust_remote_code := True\<rparr>) E
     else if nm = ''polycoder'' then
       construct HFTorchDecoder ''NinedayWang/PolyCoder-2.7B'' (kwargs bs temp) E
     else if nm = ''santacoder'' then
       construct SantaCoder ''bigcode/santacoder''
         ((kwargs bs temp)\<lparr>kw_trust_remote_code := True\<rparr>) E
     else if nm = ''incoder-1b'' then
       construct IncoderDecoder ''facebook/incoder-1B'' (kwargs bs temp) E
     else if nm = ''incoder-6b'' then
       construct IncoderDecoder ''facebook/incoder-6B'' (kwargs bs temp) E
     else if nm = ''stablelm-7b'' then
       construct HFTorchDecoder ''StabilityAI/stablelm-base-alpha-7b'' (kwargs bs temp) E
     else if prefix ''gpt-3.5-'' nm \<or> prefix ''gpt-4-'' nm then
       construct OpenAIChatDecoder nm
         ((kwargs bs temp)\<lparr>kw_conversational := True\<rparr>) E
     else if prefix ''claude'' nm then
       construct AnthropicMessageDecoder nm
         ((kwargs bs temp)\<lparr>kw_conversational := True\<rparr>) E
     else if nm = ''gptneo-2b'' then
       construct HFTorchDecoder ''EleutherAI/gpt-neo-2.7B'' (kwargs bs temp) E
     else if nm = ''gpt-j'' then
       construct HFTorchDecoder ''EleutherAI/gpt-j-6B'' (kwargs bs temp) E
     else if prefix ''starcoder'' nm then make_starcoder2 nm (kwargs bs temp) E
     else if prefix ''starcoder'' nm then
       construct StarCoderInfill (''bigcode/'' @ nm) (kwargs bs temp) E
     else if nm = ''codet5p-2b'' then
       construct CodeT5P ''Salesforce/codet5p-2b'' (kwargs bs temp) E
     else if nm = ''codet5p-6b'' then
       construct CodeT5P ''Salesforce/codet5p-6b'' (kwargs bs temp) E
     else if nm = ''codet5p-16b'' then
       construct CodeT5P ''Salesforce/codet5p-16b'' (kwargs bs temp) E
     else if prefix ''code-llama-'' nm then make_code_llama nm (kwargs bs temp) E
     else if prefix ''deepseek-coder'' nm then make_deepseek_coder nm (kwargs bs temp) E
     else if nm = ''magicoder-s-ds-6.7b'' then
       construct Magicoder ''ise-uiuc/Magicoder-S-DS-6.7B''
         ((kwargs bs temp)\<lparr>kw_conversational := True\<rparr>) E
     else if nm = ''magicoder-s-cl-7b'' then
       construct Magicoder ''ise-uiuc/Magicoder-S-CL-7B''
         ((kwargs bs temp)\<lparr>kw_conversational := True\<rparr>) E
     else if nm = ''wizardcoder-33b-v1.1'' then
       construct Alpaca ''WizardLM/WizardCoder-33B-V1.1''
         ((kwargs bs temp)\<lparr>kw_conversational := True, kw_dtype := ''float16''\<rparr>) E
     else if nm = ''wizardcoder-34b'' then
       construct Alpaca ''WizardLM/WizardCoder-Python-34B-V1.0''
         ((kwargs bs temp)\<lparr>kw_conversational := True, kw_dtype := ''float16''\<rparr>) E
     else if nm = ''wizardcoder-15b'' then
       construct Alpaca ''WizardLM/WizardCoder-15B-V1.0''
         ((kwargs bs temp)\<lparr>kw_conversational := True, kw_dtype := ''float16''\<rparr>) E
     else if nm = ''wizardcoder-7b'' then
       construct Alpaca ''WizardLM/WizardCoder-Python-7B-V1.0''
         ((kwargs bs temp)\<lparr>kw_conversational := True, kw_dtype := ''float16''\<rparr>) E
     else if nm = ''mistral-7b-codealpaca'' then
       construct HFTorchDecoder ''Nondzu/Mistral-7B-codealpaca-lora''
         ((kwargs bs temp)\<lparr>kw_dtype := ''float16''\<rparr>) E
     else if nm = ''zephyr-7b'' then
       construct HFTorchDecoder ''HuggingFaceH4/zephyr-7b-beta'' (kwargs bs temp) E
     else if nm = ''codebooga-34b'' then
       construct HFTorchDecoder ''oobabooga/CodeBooga-34B-v0.1''
         ((kwargs bs temp)\<lparr>kw_dtype := ''float16''\<rparr>) E
     else if nm = ''code-13b'' then construct Code ''ajibawa-2023/Code-13B'' (kwargs bs temp) E
     else if nm = ''code-33b'' then construct Code ''ajibawa-2023/Code-33B'' (kwargs bs temp) E
     else if nm = ''phind-code-llama-34b-v2'' then
       construct VLlmDecoder ''Phind/Phind-CodeLlama-34B-v2'' (kwargs bs temp) E
     else if nm = ''python-code-33b'' then
       construct Code ''ajibawa-2023/Python-Code-33B'' (kwargs bs temp) E
     else if nm = ''python-code-13b'' then
       construct Code ''ajibawa-2023/Python-Code-13B'' (kwargs bs temp) E
     else if nm = ''mistral-7b'' then
       construct HFTorchDecoder ''mistralai/Mistral-7B-v0.1'' (kwargs bs temp) E
     else if nm = ''dolphin-2.6'' then
       construct ChatML ''cognitivecomputations/dolphin-2.6-mixtral-8x7b''
         ((kwargs bs temp)\<lparr>kw_max_new_tokens := 512 + 256\<rparr>) E
     else if nm = ''solar-10.7b-instruct'' then
       construct Solar ''upstage/SOLAR-10.7B-Instruct-v1.0''
         ((kwargs bs temp)\<lparr>kw_conversational := True, kw_dtype := ''float16''\<rparr>) E
     else if nm = ''mistral-hermes-codepro-7b'' then
       construct ChatML ''beowolx/MistralHermes-CodePro-7B-v1''
         ((kwargs bs temp)\<lparr>kw_max_new_tokens := 512 + 256\<rparr>) E
     else if nm = ''phi-2'' then
       construct VLlmDecoder ''microsoft/phi-2''
         ((kwargs bs temp)\<lparr>kw_dtype := ''float16'', kw_trust_remote_code := True\<rparr>) E
     else if nm = ''openchat'' then
       construct OpenChat ''openchat/openchat-3.5-0106''
         ((kwargs bs temp)\<lparr>kw_conversational := True\<rparr>) E
     else if nm = ''speechless-codellama-34b'' then
       construct Alpaca ''uukuguy/speechless-codellama-34b-v2.0''
         ((kwargs bs temp)\<lparr>kw_conversational := True, kw_dtype := ''float16''\<rparr>) E
     else if nm = ''speechless-mistral-7b'' then
       construct Alpaca ''uukuguy/speechless-code-mistral-7b-v1.0''
         ((kwargs bs temp)\<lparr>kw_conversational := True, kw_dtype := ''float16''\<rparr>) E
     else if nm = ''speechless-coder-ds-6.7b'' then
       construct Speechless ''uukuguy/speechless-coder-ds-6.7b''
         ((kwargs bs temp)\<lparr>kw_conversational := True, kw_dtype := ''float16''\<rparr>) E
     else if nm = ''speechless-coding-7b-16k-tora'' then
       construct Speechless ''uukuguy/speechless-coding-7b-16k-tora''
         ((kwargs bs temp)\<lparr>kw_conversational := True\<rparr>) E
     else if nm = ''code-millenials-34b'' then
       construct Alpaca ''budecosystem/code-millenials-34b''
         ((kwargs bs temp)\<lparr>kw_conversational := True, kw_dtype := ''float16''\<rparr>) E
     else if nm = ''xdan-l1-chat'' then
       construct Alpaca ''xDAN-AI/xDAN-L1-Chat-dpo-qlora-v1''
         ((kwargs bs temp)\<lparr>kw_conversational := True\<rparr>) E
     else if nm = ''stable-code-3b'' then
       construct HFTorchDecoder ''stabilityai/stable-code-3b''
         ((kwargs bs temp)\<lparr>kw_trust_remote_code := True\<rparr>) E
     else if nm = ''xwincoder-34b'' then
       construct XwinCoder ''Xwin-LM/XwinCoder-34B'' (kwargs bs temp) E
     else if nm = ''zyte-1b'' then
       construct Zyte ''aihub-app/zyte-1B''
         ((kwargs bs temp)\<lparr>kw_conversational := True\<rparr>) E
     else if nm = ''white-rabbit-neo-33b-v1'' then
       construct WhiteRabbitNeo ''whiterabbitneo/WhiteRabbitNeo-33B-v-1''
         ((kwargs bs temp)\<lparr>kw_conversational := True, kw_dtype := ''float16''\<rparr>) E
     else if str_in ''codegemma'' nm then Inl UnboundLocalError
     else if nm = ''opencodeinterpreter-ds-6.7b'' then
       construct OpenCodeInterpreterDecoder ''m-a-p/OpenCodeInterpreter-DS-6.7B''
         ((kwargs bs temp)\<lparr>kw_conversational := True\<rparr>) E
     else if nm = ''opencodeinterpreter-ds-33b'' then
       construct OpenCodeInterpreterDecoder ''m-a-p/OpenCodeInterpreter-DS-33B''
         ((kwargs bs temp)\<lparr>kw_conversational := True\<rparr>) E
     else if nm = ''mistral-large-latest'' then
       construct MistralChatDecoder ''mistral-large-latest''
         ((kwargs bs temp)\<lparr>kw_conversational := True\<rparr>) E
     else Inl ValueError
)"

section \<open>Notions the properties are stated with\<close>

text \<open>
  What the code takes for granted of its collaborators: vLLM answers every prompt once,
  transformers returns as many sequences as \<open>num_return_sequences\<close> asks for, and the
  OpenAI service returns \<open>n\<close> choices.
\<close>

definition backend_counts :: "'t backend \<Rightarrow> bool" where
  "backend_counts be =
     ((\<forall>prompts sp texts. llm_generate be prompts sp = Inr texts \<longrightarrow>
          length texts = length prompts) \<and>
      (\<forall>args sequences. model_generate be args = Inr sequences \<longrightarrow>
          length sequences = nat (g_num_return_sequences args)) \<and>
      (\<forall>args contents. make_auto_request be args = Inr contents \<longrightarrow>
          length contents = nat (oa_n args)))"

text \<open>What \<open>CodeT5P.codegen\<close> does to a completion after the marker loop, and no other class.\<close>

definition post_process :: "decoder \<Rightarrow> string \<Rightarrow> string" where
  "post_process self s = (if cls self = CodeT5P then str_replace [CHR 0x09] ''    '' s else s)"

text \<open>The prompt a vLLM class hands to \<open>VLlmDecoder.codegen\<close>.\<close>

fun vllm_prompt :: "decoder_class \<Rightarrow> string \<Rightarrow> string" where
  "vllm_prompt ChatML prompt = ChatML_prompt prompt"
| "vllm_prompt CodeLlamaInstruct70B prompt = CodeLlamaInstruct70B_prompt prompt"
| "vllm_prompt CodeLlamaInstructSmall prompt = CodeLlamaInstructSmall_prompt prompt"
| "vllm_prompt Zyte prompt = Zyte_prompt prompt"
| "vllm_prompt OpenChat prompt = OpenChat_prompt prompt"
| "vllm_prompt Solar prompt = Solar_prompt prompt"
| "vllm_prompt Alpaca prompt = Alpaca_prompt prompt"
| "vllm_prompt WhiteRabbitNeo prompt = WhiteRabbitNeo_prompt prompt"
| "vllm_prompt DeepSeekInstruct prompt = DeepSeekInstruct_prompt prompt"
| "vllm_prompt Magicoder prompt = Magicoder_prompt prompt"
| "vllm_prompt Code prompt = Code_prompt prompt"
| "vllm_prompt XwinCoder prompt = XwinCoder_prompt prompt"
| "vllm_prompt CodeGemma prompt = CodeGemma_prompt prompt"
| "vllm_prompt c prompt = prompt"

text \<open>
  A list of completions comes from a call of \<open>self.model.generate\<close> that asked for
  \<open>min(self.batch_size, num_samples)\<close> sequences: it is the decoded and trimmed sequences
  of that call.
\<close>

definition generates :: "'t backend \<Rightarrow> string list \<Rightarrow> decoder \<Rightarrow> int \<Rightarrow> string list \<Rightarrow> bool" where
  "generates be E self num_samples outs =
     (\<exists>args sequences. model_generate be args = Inr sequences \<and>
        g_num_return_sequences args = min (batch_size self) num_samples \<and>
        outs = map (post_process self) (decode_outputs be E self (length (g_input_tokens args)) sequences))"

text \<open>
  The length \<open>__call__\<close> stores for a row in whose decoded text a stop string occurs:
  each stop string found overwrites the entry, so the last one of the list that is found
  decides.
\<close>

definition recorded_length :: "'t EndOfFunctionCriteria \<Rightarrow> 't list \<Rightarrow> nat" where
  "recorded_length self row =
     stop_length self row
       (last (filter (\<lambda>stop_string.
                 str_in stop_string (decode (tokenizer self) False (drop (start_length self) row)))
               (criteria_eos self)))"

text \<open>Collaborators that answer every request, with as many items as it asks for.\<close>

definition backend_answers :: "'t backend \<Rightarrow> bool" where
  "backend_answers be =
     ((\<forall>prompts sp. \<exists>texts. llm_generate be prompts sp = Inr texts \<and>
          length texts = length prompts) \<and>
      (\<forall>args. \<exists>sequences. model_generate be args = Inr sequences \<and>
          length sequences = nat (g_num_return_sequences args)) \<and>
      (\<forall>args. \<exists>contents. make_auto_request be args = Inr contents \<and>
          length contents = nat (oa_n args)) \<and>
      (\<forall>i args. \<exists>content. client_chat be i args = Inr content) \<and>
      (\<forall>i args. \<exists>content. anthropic_request be i args = Inr content))"

text \<open>
  No assertion of the \<open>codegen\<close> of the class fails on this call, and the retry loop of
  \<open>CodeT5P\<close> has a positive budget to start from.
\<close>

definition codegen_passes :: "decoder \<Rightarrow> bool \<Rightarrow> int \<Rightarrow> bool" where
  "codegen_passes self do_sample num_samples =
     ((cls self \<in> set sampling_asserting \<longrightarrow> \<not> (do_sample \<and> \<not> 0 < temperature self)) \<and>
      (cls self \<in> set zero_temperature_asserting \<longrightarrow>
         \<not> (temperature self = 0 \<and> (do_sample \<or> num_samples \<noteq> 1))) \<and>
      (cls self = AnthropicMessageDecoder \<and> \<not> do_sample \<longrightarrow>
         min (batch_size self) num_samples = 1) \<and>
      (cls self = CodeT5P \<longrightarrow> 0 < max_new_tokens self))"

section \<open>Collaborators and decoders for the examples\<close>

text \<open>A tokenizer whose tokens are the characters.\<close>

definition char_tokenizer :: "char Tokenizer" where
  "char_tokenizer =
     \<lparr>encode = (\<lambda>add_special_tokens s. s), decode = (\<lambda>skip_special_tokens toks. toks)\<rparr>"

text \<open>
  Collaborators that answer every request: vLLM says for each prompt whether the
  temperature it was given is zero, transformers continues the prompt with a fixed text as
  often as asked, the chat services answer with fixed texts.
\<close>

definition example_backend :: "char backend" where
  "example_backend =
     \<lparr>llm_generate =
        (\<lambda>prompts sp.
           Inr (map (\<lambda>p. if sp_temperature sp = 0 then ''temperature 0''
                          else ''temperature not 0'') prompts)),
      hf_tokenizer = char_tokenizer,
      model_generate =
        (\<lambda>args. Inr (replicate (nat (g_num_return_sequences args))
                        (g_input_tokens args @ ''return a + b</s>def g''))),
      make_auto_request = (\<lambda>args. Inr (replicate (nat (oa_n args)) ''return a + b'')),
      json_code = (\<lambda>content. None),
      client_chat = (\<lambda>i args. Inr ''return a + b</s>def g''),
      anthropic_request = (\<lambda>i args. Inr ''return a + b'')\<rparr>"

definition vllm_example :: decoder where
  "vllm_example = VLlmDecoder_init VLlmDecoder ''microsoft/phi-2'' (kwargs 4 0.8)"

definition mistral_example :: decoder where
  "mistral_example =
     DecoderBase_init MistralChatDecoder ''mistral-large-latest''
       ((kwargs 1 0.8)\<lparr>kw_conversational := True\<rparr>)"

definition hf_example :: decoder where
  "hf_example = HFTorchDecoder_init HFTorchDecoder ''EleutherAI/gpt-j-6B'' (kwargs 1 0)"

text \<open>A \<open>generate\<close> that runs out of memory for every budget above 300.\<close>

definition example_generate :: "int \<Rightarrow> py_error + string" where
  "example_generate max_new =
     (if max_new > 300 then Inl (RuntimeError ''CUDA out of memory. Tried to allocate 2.00 GiB'')
      else Inr ''generated'')"

text \<open>A criterion on the character tokenizer, and three steps of a batch of two.\<close>

definition example_criteria :: "char EndOfFunctionCriteria" where
  "example_criteria = EndOfFunctionCriteria_init 2 EOS_initial char_tokenizer"

definition example_steps :: "string list list" where
  "example_steps =
     [[''p:ab'', ''p:cd''], [''p:ab</s>'', ''p:cde''], [''p:ab</s>q'', ''p:cde</s>'']]"


chapter \<open>Properties\<close>

section \<open>String search\<close>

lemma str_index_bound:
  "str_index out m = Some i \<Longrightarrow> i + length m \<le> length out"
proof (induction out arbitrary: i)
  case Nil
  then show ?case by (simp split: if_splits)
next
  case (Cons c cs)
  show ?case
  proof (cases "prefix m (c # cs)")
    case True
    with Cons.prems show ?thesis by (auto dest: prefix_length_le)
  next
    case False
    with Cons.prems obtain j where "str_index cs m = Some j" "i = Suc j"
      by auto
    with Cons.IH show ?thesis by simp
  qed
qed

lemma str_index_occurs:
  "str_index out m = Some i \<Longrightarrow> take (length m) (drop i out) = m"
proof (induction out arbitrary: i)
  case Nil
  then show ?case by (simp split: if_splits)
next
  case (Cons c cs)
  show ?case
  proof (cases "prefix m (c # cs)")
    case True
    then obtain zs where "c # cs = m @ zs" by (auto simp: prefix_def)
    moreover from True Cons.prems have "i = 0" by simp
    ultimately show ?thesis by simp
  next
    case False
    with Cons.prems obtain j where "str_index cs m = Some j" "i = Suc j"
      by auto
    with Cons.IH show ?thesis by simp
  qed
qed

lemma str_index_first:
  "str_index out m = Some i \<Longrightarrow> j < i \<Longrightarrow> \<not> prefix m (drop j out)"
proof (induction out arbitrary: i j)
  case Nil
  then show ?case by (simp split: if_splits)
next
  case (Cons c cs)
  show ?case
  proof (cases "prefix m (c # cs)")
    case True
    with Cons.prems show ?thesis by simp
  next
    case False
    with Cons.prems obtain k where k: "str_index cs m = Some k" "i = Suc k"
      by auto
    show ?thesis
    proof (cases j)
      case 0
      with False show ?thesis by simp
    next
      case (Suc j')
      with k Cons.prems have "j' < k" by simp
      with Cons.IH k Suc show ?thesis by simp
    qed
  qed
qed

lemma str_index_None_iff: "str_index out m = None \<longleftrightarrow> \<not> sublist m out"
proof (induction out)
  case Nil
  then show ?case by simp
next
  case (Cons c cs)
  show ?case
  proof (cases "prefix m (c # cs)")
    case True
    then have "sublist m (c # cs)" by (rule prefix_imp_sublist)
    with True show ?thesis by simp
  next
    case False
    then have "m \<noteq> []" by auto
    with False Cons show ?thesis by (simp add: sublist_Cons_right)
  qed
qed

lemma str_in_iff_sublist: "str_in m out \<longleftrightarrow> sublist m out"
  by (simp add: str_in_def str_index_None_iff)

lemma list_ex_str_in: "list_ex (\<lambda>m. str_in m out) eos_list = marker_present eos_list out"
  by (simp add: marker_present_def str_in_iff_sublist)

section \<open>The marker loop\<close>

lemma min_index_loop_le: "min_index_loop k out eos_list \<le> k"
proof (induction eos_list arbitrary: k)
  case Nil
  then show ?case by simp
next
  case (Cons e es)
  have "min_index_loop (if str_in e out then min k (the (str_index out e)) else k)
          out es
        \<le> (if str_in e out then min k (the (str_index out e)) else k)"
    by (rule Cons.IH)
  then show ?case by (simp split: if_splits)
qed

lemma min_index_loop_le_index:
  "m \<in> set eos_list \<Longrightarrow> str_index out m = Some i \<Longrightarrow>
   min_index_loop k out eos_list \<le> i"
proof (induction eos_list arbitrary: k)
  case Nil
  then show ?case by simp
next
  case (Cons e es)
  show ?case
  proof (cases "m = e")
    case True
    with Cons.prems have "str_in e out" by (simp add: str_in_def)
    with True Cons.prems
    have "min_index_loop k out (e # es) = min_index_loop (min k i) out es"
      by simp
    also have "\<dots> \<le> min k i" by (rule min_index_loop_le)
    finally show ?thesis by simp
  next
    case False
    with Cons.prems have "m \<in> set es" by simp
    with Cons.IH Cons.prems(2) show ?thesis by simp
  qed
qed

lemma min_index_loop_absent:
  "\<not> marker_present eos_list out \<Longrightarrow> min_index_loop k out eos_list = k"
  by (induction eos_list arbitrary: k)
     (auto simp: marker_present_def str_in_iff_sublist)

lemma min_index_loop_cases:
  "min_index_loop k out eos_list = k \<or>
   (\<exists>m \<in> set eos_list. str_index out m = Some (min_index_loop k out eos_list))"
proof (induction eos_list arbitrary: k)
  case Nil
  then show ?case by simp
next
  case (Cons e es)
  let ?k' = "if str_in e out then min k (the (str_index out e)) else k"
  from Cons.IH [of ?k']
  consider "min_index_loop ?k' out es = ?k'"
    | m where "m \<in> set es" "str_index out m = Some (min_index_loop ?k' out es)"
    by blast
  then show ?case
  proof cases
    case 1
    then show ?thesis
      by (auto simp: str_in_def min_def)
  next
    case 2
    then show ?thesis by auto
  qed
qed

lemma marker_present_index:
  "marker_present eos_list out \<Longrightarrow>
   \<exists>m \<in> set eos_list. \<exists>i. str_index out m = Some i"
proof -
  assume "marker_present eos_list out"
  then obtain m where e: "m \<in> set eos_list" "sublist m out"
    by (auto simp: marker_present_def list_ex_iff)
  from e(2) have "str_index out m \<noteq> None" by (simp add: str_index_None_iff)
  then obtain i where "str_index out m = Some i" by blast
  with e(1) show ?thesis by blast
qed

lemma remove_eos_prefix: "prefix (remove_eos eos_list out) out"
  by (simp add: remove_eos_def take_is_prefix)

text \<open>
  The sentinel: a text of more than 10000 characters is cut at 10000 although it holds
  no marker.
\<close>

lemma remove_eos_long_text:
  "\<not> marker_present eos_list out \<Longrightarrow> remove_eos eos_list out = take 10000 out"
  by (simp add: remove_eos_def min_index_loop_absent)

text \<open>
  For a text of at most 10000 characters and markers that are not empty, the step cuts
  the text at the least first occurrence of a marker, and leaves it as it is exactly
  when no marker occurs.
\<close>

lemma remove_eos_short_text:
  assumes short: "length out \<le> 10000" and nonempty: "[] \<notin> set eos_list"
  shows "prefix (remove_eos eos_list out) out \<and>
         (remove_eos eos_list out = out \<longleftrightarrow> \<not> marker_present eos_list out) \<and>
         (marker_present eos_list out \<longrightarrow>
            (\<exists>m \<in> set eos_list. str_index out m = Some (length (remove_eos eos_list out))) \<and>
            (\<forall>m \<in> set eos_list. \<forall>i. str_index out m = Some i \<longrightarrow>
               length (remove_eos eos_list out) \<le> i))"
proof (intro conjI impI)
  show "prefix (remove_eos eos_list out) out" by (rule remove_eos_prefix)
next
  show "remove_eos eos_list out = out \<longleftrightarrow> \<not> marker_present eos_list out"
  proof
    assume same: "remove_eos eos_list out = out"
    show "\<not> marker_present eos_list out"
    proof
      assume "marker_present eos_list out"
      then obtain m i where e: "m \<in> set eos_list" "str_index out m = Some i"
        using marker_present_index by blast
      from e(1) nonempty have "m \<noteq> []" by auto
      then have "0 < length m" by simp
      with str_index_bound [OF e(2)] have "i < length out" by linarith
      moreover have "min_index_loop 10000 out eos_list \<le> i"
        using e by (rule min_index_loop_le_index)
      ultimately have "length (remove_eos eos_list out) < length out"
        by (simp add: remove_eos_def)
      with same show False by simp
    qed
  next
    assume "\<not> marker_present eos_list out"
    then have "remove_eos eos_list out = take 10000 out" by (rule remove_eos_long_text)
    with short show "remove_eos eos_list out = out" by simp
  qed
next
  assume present: "marker_present eos_list out"
  then obtain m i where e: "m \<in> set eos_list" "str_index out m = Some i"
    using marker_present_index by blast
  let ?k = "min_index_loop 10000 out eos_list"
  have ki: "?k \<le> i" using e by (rule min_index_loop_le_index)
  have il: "i \<le> length out" using str_index_bound [OF e(2)] by simp
  from ki il have len: "length (remove_eos eos_list out) = ?k"
    by (simp add: remove_eos_def)
  show "\<exists>m \<in> set eos_list. str_index out m = Some (length (remove_eos eos_list out))"
  proof (cases "?k = 10000")
    case True
    with ki il short have "i = ?k" by simp
    with e len show ?thesis by auto
  next
    case False
    with min_index_loop_cases [of 10000 out eos_list] len show ?thesis by simp
  qed
  show "\<forall>m \<in> set eos_list. \<forall>i. str_index out m = Some i \<longrightarrow>
          length (remove_eos eos_list out) \<le> i"
    using len min_index_loop_le_index by auto
qed

text \<open>The scenario of the specification.\<close>

lemma remove_eos_scenario:
  "length ''return a + b\<newline><|endoftext|>extra'' \<le> 10000 \<and>
   [] \<notin> set [''<|endoftext|>'', ''<|endofmask|>'', ''</s>''] \<and>
   remove_eos [''<|endoftext|>'', ''<|endofmask|>'', ''</s>'']
     ''return a + b\<newline><|endoftext|>extra'' = ''return a + b\<newline>'' \<and>
   marker_present [''<|endoftext|>'', ''<|endofmask|>'', ''</s>'']
     ''return a + b\<newline><|endoftext|>extra'' \<and>
   str_index ''return a + b\<newline><|endoftext|>extra'' ''<|endoftext|>'' = Some 13"
proof -
  let ?t = "''return a + b\<newline><|endoftext|>extra''"
  let ?E = "[''<|endoftext|>'', ''<|endofmask|>'', ''</s>'']"
  have idx: "str_index ?t ''<|endoftext|>'' = Some 13" by simp
  have no1: "str_index ?t ''<|endofmask|>'' = None" by simp
  have no2: "str_index ?t ''</s>'' = None" by simp
  have h1: "length ?t \<le> 10000" by simp
  have h2: "[] \<notin> set ?E" by simp
  have r: "remove_eos ?E ?t = ''return a + b\<newline>''"
    by (simp add: remove_eos_def str_in_def idx no1 no2 del: str_index.simps)
  from remove_eos_short_text [OF h1 h2] r
  have "marker_present ?E ?t" by auto
  with h1 h2 r idx show ?thesis by simp
qed

lemma str_index_Nil: "out \<noteq> [] \<Longrightarrow> str_index out [] = Some 0"
  by (cases out) simp_all

text \<open>
  When the trimming step returns its text unchanged: for the empty text, and for a text
  of at most 10000 characters in which no marker occurs.
\<close>

lemma remove_eos_unchanged_iff:
  "remove_eos eos_list out = out \<longleftrightarrow>
   out = [] \<or> (\<not> marker_present eos_list out \<and> length out \<le> 10000)"
proof
  assume same: "remove_eos eos_list out = out"
  let ?k = "min_index_loop 10000 out eos_list"
  from same have "length (take ?k out) = length out" by (simp add: remove_eos_def)
  then have k: "length out \<le> ?k" by simp
  show "out = [] \<or> (\<not> marker_present eos_list out \<and> length out \<le> 10000)"
  proof (cases "out = []")
    case True
    then show ?thesis by simp
  next
    case False
    have "\<not> marker_present eos_list out"
    proof
      assume "marker_present eos_list out"
      then obtain m i where e: "m \<in> set eos_list" "str_index out m = Some i"
        using marker_present_index by blast
      have "?k \<le> i" using e by (rule min_index_loop_le_index)
      with k str_index_bound [OF e(2)] have "i = length out \<and> length m = 0" by linarith
      then have "i = length out" "m = []" by simp_all
      with e(2) str_index_Nil [OF False] have "length out = 0" by simp
      with False show False by simp
    qed
    moreover have "?k \<le> 10000" by (rule min_index_loop_le)
    ultimately show ?thesis using k by simp
  qed
next
  assume "out = [] \<or> (\<not> marker_present eos_list out \<and> length out \<le> 10000)"
  then show "remove_eos eos_list out = out"
  proof
    assume "out = []"
    then show ?thesis by (simp add: remove_eos_def)
  next
    assume "\<not> marker_present eos_list out \<and> length out \<le> 10000"
    then show ?thesis by (simp add: remove_eos_long_text)
  qed
qed

lemma not_sublist_replicate: "c \<noteq> a \<Longrightarrow> \<not> sublist (c # m) (replicate n a)"
proof
  assume "c \<noteq> a" and "sublist (c # m) (replicate n a)"
  from this(2) have "set (c # m) \<subseteq> set (replicate n a)" by (rule set_mono_sublist)
  then have "c \<in> set (replicate n a)" by simp
  with \<open>c \<noteq> a\<close> show False by simp
qed

lemma no_marker_in_replicate: "\<not> marker_present EOS_initial (replicate n CHR ''a'')"
  by (simp add: marker_present_def EOS_initial_def not_sublist_replicate)

text \<open>
  Claim C1 says that the trimming step returns the text unchanged if and only if no
  marker is a substring of it. The code breaks this: the loop starts from
  \<open>min_index = 10000\<close>, not from the length of the text, so a decoded completion of 10001
  letters \<open>a\<close>, in which none of the stop markers of the module occurs, comes back cut to
  its first 10000 letters. (The result is a prefix of the text in every case.)
\<close>

theorem remove_eos_sentinel:
  "length (replicate 10001 CHR ''a'') = 10001 \<and>
   \<not> marker_present EOS_initial (replicate 10001 CHR ''a'') \<and>
   remove_eos EOS_initial (replicate 10001 CHR ''a'') = replicate 10000 CHR ''a'' \<and>
   remove_eos EOS_initial (replicate 10001 CHR ''a'') \<noteq> replicate 10001 CHR ''a'' \<and>
   decode_outputs example_backend EOS_initial hf_example 0 [replicate 10001 CHR ''a''] =
     [replicate 10000 CHR ''a'']"
proof -
  have r: "remove_eos EOS_initial (replicate 10001 CHR ''a'') = replicate 10000 CHR ''a''"
    using no_marker_in_replicate [of 10001] by (simp add: remove_eos_long_text)
  have e: "eos_of EOS_initial hf_example = EOS_initial"
    by (simp add: eos_of_def hf_example_def HFTorchDecoder_init_def DecoderBase_init_def)
  have d: "decode_outputs example_backend EOS_initial hf_example 0 [replicate 10001 CHR ''a''] =
     [replicate 10000 CHR ''a'']"
    by (simp add: decode_outputs_def e r example_backend_def char_tokenizer_def)
  from r d no_marker_in_replicate [of 10001] show ?thesis by simp
qed

section \<open>Constructing decoders\<close>

lemma deepseek_match:
  "findall_first match_deepseek_coder ''deepseek-coder-6.7b-instruct'' =
   Inr (''6.7'', ''-instruct'')"
  by (simp add: match_deepseek_coder_def is_digit_def)

lemma deepseek_float: "float_of_decimal ''6.7'' = 67 / 10"
  by (simp add: float_of_decimal_def is_digit_def int_of_digits_def digit_val_def)

lemma deepseek_repr: "repr_decimal ''6.7'' = ''6.7''"
  by (simp add: repr_decimal_def is_digit_def int_of_digits_def digit_val_def
        str_of_nat.simps)

lemma deepseek_floor: "\<lfloor>67 / 10 :: rat\<rfloor> = 6"
  by (rule floor_unique) simp_all

lemma deepseek_not_integer: "\<not> is_integer (67 / 10)"
  by (simp add: is_integer_def deepseek_floor)

lemma deepseek_branch:
  "make_deepseek_coder ''deepseek-coder-6.7b-instruct'' kw E =
   Inr (template_init DeepSeekInstruct ''deepseek-ai/deepseek-coder-6.7b-instruct''
          (kw\<lparr>kw_conversational := True\<rparr>) E)"
  unfolding make_deepseek_coder_def deepseek_match
  by (simp add: deepseek_float deepseek_repr deepseek_not_integer list_get_def Let_def
        str_in_iff_sublist sublist_Cons_right)

lemma deepseek_model:
  "make_model ''deepseek-coder-6.7b-instruct'' bs temp E =
   Inr (template_init DeepSeekInstruct ''deepseek-ai/deepseek-coder-6.7b-instruct''
          ((kwargs bs temp)\<lparr>kw_conversational := True\<rparr>) E)"
  by (simp add: make_model_def deepseek_branch)

text \<open>
  Claim C7: \<open>make_model\<close> resolves \<open>deepseek-coder-6.7b-instruct\<close> to a decoder of the
  class \<open>DeepSeekInstruct\<close>; the size parsed from the identifier is 6.7; the decoder is
  conversational and its budget of new tokens is the conversational one, 1024, not the
  completion budget 512.
\<close>

theorem make_model_deepseek_instruct:
  "findall_first match_deepseek_coder ''deepseek-coder-6.7b-instruct'' =
     Inr (''6.7'', ''-instruct'') \<and>
   float_of_decimal ''6.7'' = 67 / 10 \<and>
   (\<exists>d. make_model ''deepseek-coder-6.7b-instruct'' bs temp E = Inr (d, E @ [''\<newline>```'']) \<and>
        cls d = DeepSeekInstruct \<and>
        name d = ''deepseek-ai/deepseek-coder-6.7b-instruct'' \<and>
        conversational d \<and>
        max_new_tokens d = kw_max_conversational_new_tokens default_kwargs \<and>
        max_new_tokens d = 1024 \<and>
        max_new_tokens d \<noteq> kw_max_new_tokens default_kwargs \<and>
        batch_size d = bs \<and> temperature d = temp)"
proof (intro conjI)
  show "findall_first match_deepseek_coder ''deepseek-coder-6.7b-instruct'' =
          Inr (''6.7'', ''-instruct'')"
    by (rule deepseek_match)
  show "float_of_decimal ''6.7'' = 67 / 10" by (rule deepseek_float)
  show "\<exists>d. make_model ''deepseek-coder-6.7b-instruct'' bs temp E = Inr (d, E @ [''\<newline>```'']) \<and>
        cls d = DeepSeekInstruct \<and>
        name d = ''deepseek-ai/deepseek-coder-6.7b-instruct'' \<and>
        conversational d \<and>
        max_new_tokens d = kw_max_conversational_new_tokens default_kwargs \<and>
        max_new_tokens d = 1024 \<and>
        max_new_tokens d \<noteq> kw_max_new_tokens default_kwargs \<and>
        batch_size d = bs \<and> temperature d = temp"
    by (simp add: deepseek_model template_init_def eos_extend_def VLlmDecoder_init_def
          DecoderBase_init_def kwargs_def default_kwargs_def)
qed

text \<open>
  Claim C8 fails on the code: an identifier that starts like a family and does not match
  its pattern raises \<open>IndexError\<close> (the result of \<open>findall\<close> is indexed without a test), and
  every identifier that holds \<open>codegemma\<close> raises \<open>UnboundLocalError\<close>; neither is the
  \<open>ValueError\<close> of the last line of \<open>make_model\<close>.
\<close>

theorem make_model_other_errors:
  "make_model ''deepseek-coder-lite'' bs temp E = Inl IndexError \<and>
   make_model ''starcoder'' bs temp E = Inl IndexError \<and>
   make_model ''codegemma-7b'' bs temp E = Inl UnboundLocalError"
  by (simp add: make_model_def make_deepseek_coder_def match_deepseek_coder_def
        make_starcoder2_def match_starcoder2_def is_digit_def str_in_iff_sublist
        sublist_Cons_right)

section \<open>The shared list\<close>








lemma construct_all_Cons_Inr:
  "construct c nm kw E = Inr (d, E') \<Longrightarrow>
   construct_all ((c, nm, kw) # calls) E = construct_all calls E'"
  by simp




section \<open>What \<open>codegen\<close> returns\<close>

lemmas vllm_codegen_defs =
  ChatML_codegen_def CodeLlamaInstruct70B_codegen_def CodeLlamaInstructSmall_codegen_def
  Zyte_codegen_def OpenChat_codegen_def Solar_codegen_def Alpaca_codegen_def
  WhiteRabbitNeo_codegen_def DeepSeekInstruct_codegen_def Magicoder_codegen_def
  Code_codegen_def XwinCoder_codegen_def CodeGemma_codegen_def

lemma request_loop_calls:
  "request_loop call idxs acc = Inr outs \<Longrightarrow> map Inr outs = map Inr acc @ map call idxs"
proof (induction idxs arbitrary: acc)
  case Nil
  then show ?case by simp
next
  case (Cons i rest)
  then obtain content where c: "call i = Inr content"
    and r: "request_loop call rest (acc @ [content]) = Inr outs"
    by (auto split: sum.splits)
  from Cons.IH [OF r] c show ?case by simp
qed

lemma request_loop_range:
  assumes "request_loop call [0..<n] [] = Inr outs"
  shows "length outs = n \<and> (\<forall>i<n. call i = Inr (outs ! i))"
proof -
  from request_loop_calls [OF assms] have eq: "map Inr outs = map call [0..<n]" by simp
  from arg_cong [OF eq, of length] have len: "length outs = n" by simp
  moreover have "\<forall>i<n. call i = Inr (outs ! i)"
  proof (intro allI impI)
    fix i assume i: "i < n"
    then have "call i = map call [0..<n] ! i" by simp
    also have "\<dots> = map Inr outs ! i" by (simp only: eq)
    also from i len have "\<dots> = Inr (outs ! i)" by simp
    finally show "call i = Inr (outs ! i)" .
  qed
  ultimately show ?thesis by simp
qed

lemma generate_retry_success:
  "snd (generate_retry generate n) = Inr r \<Longrightarrow> \<exists>k. generate k = Inr r"
proof (induction generate n rule: generate_retry.induct)
  case (1 generate max_new)
  note unfold = generate_retry.simps [of generate max_new]
  show ?case
  proof (cases "max_new > 0")
    case False
    with "1.prems" unfold show ?thesis by simp
  next
    case True
    show ?thesis
    proof (cases "is_oom (generate max_new)")
      case oom: True
      with True "1.prems" unfold
      have "snd (generate_retry generate (reduced max_new)) = Inr r"
        by (simp add: Let_def split: prod.splits)
      with "1.IH" True oom show ?thesis by simp
    next
      case False
      with True "1.prems" unfold have "generate max_new = Inr r" by (simp add: Let_def)
      then show ?thesis by blast
    qed
  qed
qed

text \<open>Every vLLM class ends in \<open>VLlmDecoder.codegen\<close> on its own prompt.\<close>

lemma vllm_codegen_eq:
  assumes "cls self \<in> set vllm_classes"
  shows "snd (codegen be E self prompt do_sample num_samples) =
         VLlmDecoder_codegen be E self (vllm_prompt (cls self) prompt) do_sample num_samples"
  using assms
  apply (simp add: vllm_classes_def fence_classes_def)
  apply (elim disjE)
  apply (simp_all add: codegen_def vllm_codegen_defs VLlmDecoder_codegen_def)
  done

lemma VLlmDecoder_codegen_Inr:
  assumes "VLlmDecoder_codegen be E self p do_sample num_samples = Inr outs"
  shows "\<exists>texts. llm_generate be (replicate (nat (min (batch_size self) num_samples)) p)
            \<lparr>sp_temperature = temperature self, sp_max_tokens = max_new_tokens self,
             sp_top_p = (if do_sample then 0.95 else 1.0), sp_stop = eos_of E self\<rparr> = Inr texts \<and>
          outs = map (str_replace [CHR 0x09] ''    '') texts"
proof -
  let ?r = "llm_generate be (replicate (nat (min (batch_size self) num_samples)) p)
            \<lparr>sp_temperature = temperature self, sp_max_tokens = max_new_tokens self,
             sp_top_p = (if do_sample then 0.95 else 1.0), sp_stop = eos_of E self\<rparr>"
  from assms have "(case ?r of Inl e \<Rightarrow> Inl e
      | Inr texts \<Rightarrow> Inr (map (str_replace [CHR 0x09] ''    '') texts)) = Inr outs"
    by (simp add: VLlmDecoder_codegen_def Let_def split: if_splits)
  then show ?thesis by (cases ?r) auto
qed

text \<open>The transformers classes.\<close>

lemma transformers_generate_Inr:
  assumes "transformers_generate be E self args = Inr outs"
  shows "\<exists>sequences. model_generate be args = Inr sequences \<and>
           outs = decode_outputs be E self (length (g_input_tokens args)) sequences"
  using assms by (cases "model_generate be args") (auto simp: transformers_generate_def)

lemma post_process_other: "cls self \<noteq> CodeT5P \<Longrightarrow> map (post_process self) xs = xs"
  by (induction xs) (simp_all add: post_process_def)

lemma generatesI:
  "transformers_generate be E self args = Inr outs \<Longrightarrow>
   g_num_return_sequences args = min (batch_size self) num_samples \<Longrightarrow>
   cls self \<noteq> CodeT5P \<Longrightarrow>
   generates be E self num_samples outs"
  unfolding generates_def
  by (drule transformers_generate_Inr) (auto simp: post_process_other)

lemma HFTorchDecoder_generates:
  "HFTorchDecoder_codegen be E self prompt do_sample num_samples = Inr outs \<Longrightarrow>
   cls self \<noteq> CodeT5P \<Longrightarrow> generates be E self num_samples outs"
  by (simp add: HFTorchDecoder_codegen_def Let_def split: if_splits)
     ((erule generatesI, simp, assumption)+)

lemma IncoderDecoder_generates:
  "IncoderDecoder_codegen be E self prompt do_sample num_samples = Inr outs \<Longrightarrow>
   cls self \<noteq> CodeT5P \<Longrightarrow> generates be E self num_samples outs"
  by (simp add: IncoderDecoder_codegen_def Let_def split: if_splits)
     ((erule generatesI, simp, assumption)+)

lemma Codegen2Decoder_generates:
  "Codegen2Decoder_codegen be E self prompt do_sample num_samples = Inr outs \<Longrightarrow>
   cls self \<noteq> CodeT5P \<Longrightarrow> generates be E self num_samples outs"
  by (simp add: Codegen2Decoder_codegen_def Let_def split: if_splits)
     ((erule generatesI, simp, assumption)+)

lemma SantaCoder_generates:
  "SantaCoder_codegen be E self prompt do_sample num_samples = Inr outs \<Longrightarrow>
   cls self \<noteq> CodeT5P \<Longrightarrow> generates be E self num_samples outs"
  by (simp add: SantaCoder_codegen_def Let_def split: if_splits)
     ((erule generatesI, simp, assumption)+)

lemma StarCoderInfill_generates:
  "StarCoderInfill_codegen be E self prompt do_sample num_samples = Inr outs \<Longrightarrow>
   cls self \<noteq> CodeT5P \<Longrightarrow> generates be E self num_samples outs"
  by (simp add: StarCoderInfill_codegen_def Let_def split: if_splits)
     ((erule generatesI, simp, assumption)+)

lemma Speechless_generates:
  "Speechless_codegen be E self prompt do_sample num_samples = Inr outs \<Longrightarrow>
   cls self \<noteq> CodeT5P \<Longrightarrow> generates be E self num_samples outs"
  by (simp add: Speechless_codegen_def Let_def split: if_splits)
     ((erule generatesI, simp, assumption)+)

lemma OpenCodeInterpreterDecoder_generates:
  "OpenCodeInterpreterDecoder_codegen be E self prompt do_sample num_samples = Inr outs \<Longrightarrow>
   cls self \<noteq> CodeT5P \<Longrightarrow> generates be E self num_samples outs"
  unfolding OpenCodeInterpreterDecoder_codegen_def by (rule HFTorchDecoder_generates)

lemma CodeT5P_generates:
  assumes "CodeT5P_codegen be E self prompt do_sample num_samples = Inr outs"
    and "cls self = CodeT5P"
  shows "generates be E self num_samples outs"
proof -
  let ?toks = "encode (hf_tokenizer be) True (str_replace ''    '' [CHR 0x09] prompt)"
  let ?gen = "\<lambda>max_new. model_generate be
                   \<lparr>g_input_tokens = ?toks, g_max_new_tokens = max_new,
                    g_stopping_criteria = scores be E self ?toks, g_do_sample = do_sample,
                    g_top_p = Some 0.95, g_temperature = Some (temperature self),
                    g_num_return_sequences = min (batch_size self) num_samples\<rparr>"
  let ?r = "snd (generate_retry ?gen (max_new_tokens self))"
  from assms(1) have "(case ?r of Inl e \<Rightarrow> Inl e
      | Inr sequences \<Rightarrow> Inr (map (str_replace [CHR 0x09] ''    '')
                    (decode_outputs be E self (length ?toks) sequences))) = Inr outs"
    by (simp add: CodeT5P_codegen_def Let_def split: if_splits)
  then obtain sequences where s: "?r = Inr sequences"
    and o: "outs = map (str_replace [CHR 0x09] ''    '')
                    (decode_outputs be E self (length ?toks) sequences)"
    by (cases ?r) auto
  from generate_retry_success [OF s] obtain k where k: "?gen k = Inr sequences" by blast
  have pp: "post_process self = str_replace [CHR 0x09] ''    ''"
    using assms(2) by (simp add: post_process_def fun_eq_iff)
  show ?thesis
    unfolding generates_def
    by (rule exI, rule exI [of _ sequences], intro conjI, rule k) (simp_all add: o pp)
qed

lemma transformers_codegen_generates:
  assumes "cls self \<in> set transformers_classes"
    and "snd (codegen be E self prompt do_sample num_samples) = Inr outs"
  shows "generates be E self num_samples outs"
  using assms
  apply (simp add: transformers_classes_def)
  apply (elim disjE)
         apply (simp_all add: codegen_def)
         apply (erule HFTorchDecoder_generates, simp)
        apply (erule IncoderDecoder_generates, simp)
       apply (erule Codegen2Decoder_generates, simp)
      apply (erule SantaCoder_generates, simp)
     apply (erule StarCoderInfill_generates, simp)
    apply (erule Speechless_generates, simp)
   apply (erule CodeT5P_generates, simp)
  apply (erule OpenCodeInterpreterDecoder_generates, simp)
  done


section \<open>The remote classes\<close>

lemma request_loop_args:
  assumes "request_loop (\<lambda>i. f i a) [0..<n] [] = Inr outs"
  shows "length outs = n \<and> (\<forall>i<length outs. \<exists>args. f i args = Inr (outs ! i))"
proof -
  from request_loop_range [OF assms]
  have len: "length outs = n" and calls: "\<forall>i<n. f i a = Inr (outs ! i)" by simp_all
  from calls len have "\<forall>i<length outs. \<exists>args. f i args = Inr (outs ! i)" by blast
  with len show ?thesis by simp
qed

lemma MistralChatDecoder_codegen_Inr:
  assumes "snd (MistralChatDecoder_codegen be E self prompt do_sample num_samples) = Inr outs"
  shows "length outs = nat (min (batch_size self) num_samples) \<and>
         (\<forall>i<length outs. \<exists>args. client_chat be i args = Inr (outs ! i))"
  using assms
  apply (simp add: MistralChatDecoder_codegen_def Let_def split: if_splits)
   apply (drule request_loop_args [where f = "client_chat be"], simp)
  apply (drule request_loop_args [where f = "client_chat be"], simp)
  done

lemma AnthropicMessageDecoder_codegen_Inr:
  assumes "AnthropicMessageDecoder_codegen be E self prompt do_sample num_samples = Inr outs"
  shows "length outs = nat (min (batch_size self) num_samples) \<and>
         (\<forall>i<length outs. \<exists>args. anthropic_request be i args = Inr (outs ! i))"
  using assms
  apply (simp add: AnthropicMessageDecoder_codegen_def Let_def split: if_splits)
  apply (drule request_loop_args [where f = "anthropic_request be"], simp)
  done

lemma OpenAIChatDecoder_codegen_Inr:
  assumes "OpenAIChatDecoder_codegen be E self prompt do_sample num_samples = Inr outs"
  shows "\<exists>args contents. make_auto_request be args = Inr contents \<and>
           oa_n args = min (batch_size self) num_samples \<and>
           length outs = length contents \<and>
           (\<forall>i<length outs. outs ! i = contents ! i \<or>
              (\<exists>code. json_code be (contents ! i) = Some code \<and>
                 outs ! i = prompt @ ''\<newline>'' @ code))"
proof -
  define fmt where "fmt = (if name self = ''gpt-4-1106-preview'' then ''json_object'' else ''text'')"
  define args where "args =
     \<lparr>oa_message =
        (if fmt = ''json_object''
         then ''Please complete the following code snippet by generating JSON like {\"code\": \"\"}''
         else ''Please generate code to complete the following problem:'') @
        ''\<newline>```python\<newline>'' @ str_strip prompt @ ''\<newline>```'',
      oa_model = name self,
      oa_max_tokens = max_new_tokens self, oa_temperature = temperature self,
      oa_n = min (batch_size self) num_samples, oa_response_format = fmt\<rparr>"
  define f where "f = (\<lambda>content.
     if fmt = ''json_object''
     then (case json_code be content of
             Some code \<Rightarrow> prompt @ ''\<newline>'' @ code
           | None \<Rightarrow> content)
     else content)"
  have ok: "\<not> (do_sample \<and> \<not> 0 < temperature self)"
    using assms by (rule_tac ccontr) (simp add: OpenAIChatDecoder_codegen_def)
  have "OpenAIChatDecoder_codegen be E self prompt do_sample num_samples =
        (case make_auto_request be args of Inl e \<Rightarrow> Inl e
         | Inr contents \<Rightarrow> Inr (map f contents))"
    unfolding OpenAIChatDecoder_codegen_def Let_def args_def f_def fmt_def
    using ok by (simp only: if_False)
  with assms have r: "(case make_auto_request be args of Inl e \<Rightarrow> Inl e
         | Inr contents \<Rightarrow> Inr (map f contents)) = Inr outs"
    by simp
  have n: "oa_n args = min (batch_size self) num_samples" by (simp add: args_def)
  have f: "\<And>content. f content = content \<or>
              (\<exists>code. json_code be content = Some code \<and>
                 f content = prompt @ ''\<newline>'' @ code)"
    by (simp add: f_def split: option.splits)
  from r obtain contents where c: "make_auto_request be args = Inr contents"
    and o: "outs = map f contents"
    by (cases "make_auto_request be args") auto
  from f have "\<forall>i<length outs. outs ! i = contents ! i \<or>
              (\<exists>code. json_code be (contents ! i) = Some code \<and>
                 outs ! i = prompt @ ''\<newline>'' @ code)"
    unfolding o by simp
  with c o n show ?thesis
    by (intro exI [of _ args] exI [of _ contents]) simp
qed

section \<open>The number of completions\<close>

lemma class_family:
  "cls self \<in> set vllm_classes \<or> cls self \<in> set transformers_classes \<or>
   cls self = OpenAIChatDecoder \<or> cls self = MistralChatDecoder \<or>
   cls self = AnthropicMessageDecoder"
  by (cases "cls self")
     (simp_all add: vllm_classes_def fence_classes_def transformers_classes_def)

lemma codegen_OpenAIChatDecoder:
  "cls self = OpenAIChatDecoder \<Longrightarrow>
   snd (codegen be E self prompt do_sample num_samples) =
   OpenAIChatDecoder_codegen be E self prompt do_sample num_samples"
  by (simp add: codegen_def)

lemma codegen_MistralChatDecoder:
  "cls self = MistralChatDecoder \<Longrightarrow>
   codegen be E self prompt do_sample num_samples =
   MistralChatDecoder_codegen be E self prompt do_sample num_samples"
  by (simp add: codegen_def)

lemma codegen_AnthropicMessageDecoder:
  "cls self = AnthropicMessageDecoder \<Longrightarrow>
   snd (codegen be E self prompt do_sample num_samples) =
   AnthropicMessageDecoder_codegen be E self prompt do_sample num_samples"
  by (simp add: codegen_def)

lemma length_decode_outputs: "length (decode_outputs be E self n sequences) = length sequences"
  by (simp add: decode_outputs_def)

text \<open>A call that returns, on collaborators that answer as often as asked.\<close>

lemma codegen_count_returned:
  assumes counts: "backend_counts be"
    and ret: "snd (codegen be E self prompt do_sample num_samples) = Inr outs"
  shows "length outs = nat (min (batch_size self) num_samples)"
proof -
  consider (vllm) "cls self \<in> set vllm_classes"
    | (transformers) "cls self \<in> set transformers_classes"
    | (openai) "cls self = OpenAIChatDecoder"
    | (mistral) "cls self = MistralChatDecoder"
    | (anthropic) "cls self = AnthropicMessageDecoder"
    using class_family by blast
  then show ?thesis
  proof cases
    case vllm
    with ret have "VLlmDecoder_codegen be E self (vllm_prompt (cls self) prompt) do_sample
                     num_samples = Inr outs"
      by (simp add: vllm_codegen_eq)
    from VLlmDecoder_codegen_Inr [OF this] obtain prompts sp texts where
      "llm_generate be prompts sp = Inr texts"
      "length prompts = nat (min (batch_size self) num_samples)"
      "outs = map (str_replace [CHR 0x09] ''    '') texts"
      by (metis length_replicate)
    with counts show ?thesis by (simp add: backend_counts_def)
  next
    case transformers
    from transformers_codegen_generates [OF transformers ret]
    obtain args sequences where
      "model_generate be args = Inr sequences"
      "g_num_return_sequences args = min (batch_size self) num_samples"
      "length outs = length sequences"
      by (auto simp: generates_def length_decode_outputs)
    with counts show ?thesis by (simp add: backend_counts_def)
  next
    case openai
    with ret have "OpenAIChatDecoder_codegen be E self prompt do_sample num_samples = Inr outs"
      by (simp add: codegen_OpenAIChatDecoder)
    from OpenAIChatDecoder_codegen_Inr [OF this] obtain args contents where
      "make_auto_request be args = Inr contents"
      "oa_n args = min (batch_size self) num_samples"
      "length outs = length contents"
      by blast
    with counts show ?thesis by (simp add: backend_counts_def)
  next
    case mistral
    with ret have "snd (MistralChatDecoder_codegen be E self prompt do_sample num_samples) =
                   Inr outs"
      by (simp add: codegen_MistralChatDecoder)
    from MistralChatDecoder_codegen_Inr [OF this] show ?thesis by simp
  next
    case anthropic
    with ret have "AnthropicMessageDecoder_codegen be E self prompt do_sample num_samples =
                   Inr outs"
      by (simp add: codegen_AnthropicMessageDecoder)
    from AnthropicMessageDecoder_codegen_Inr [OF this] show ?thesis by simp
  qed
qed

lemma example_backend_counts: "backend_counts example_backend"
  by (simp add: backend_counts_def example_backend_def)

lemma vllm_example_sampling:
  "snd (codegen example_backend EOS_initial vllm_example ''def add(a, b):'' True 200) =
   Inr [''temperature not 0'', ''temperature not 0'', ''temperature not 0'',
        ''temperature not 0'']"
  by (simp add: codegen_def VLlmDecoder_codegen_def vllm_example_def VLlmDecoder_init_def
        DecoderBase_init_def kwargs_def default_kwargs_def example_backend_def
        numeral_eq_Suc)

section \<open>Trimming of the completions\<close>

lemmas example_defs =
  example_backend_def char_tokenizer_def vllm_example_def mistral_example_def hf_example_def
  VLlmDecoder_init_def HFTorchDecoder_init_def DecoderBase_init_def kwargs_def
  default_kwargs_def EOS_initial_def eos_of_def

lemma remove_eos_example:
  "remove_eos [''<|endoftext|>'', ''<|endofmask|>'', ''</s>''] ''return a + b</s>def g'' =
   ''return a + b''"
proof -
  have a: "str_index ''return a + b</s>def g'' ''<|endoftext|>'' = None" by simp
  have b: "str_index ''return a + b</s>def g'' ''<|endofmask|>'' = None" by simp
  have c: "str_index ''return a + b</s>def g'' ''</s>'' = Some 12" by simp
  show ?thesis by (simp add: remove_eos_def str_in_def a b c del: str_index.simps)
qed

text \<open>
  Claim C6 fails for the remote decoders: the text the Mistral service answers is
  returned as it is, though a stop marker of the decoder occurs in it and the marker loop
  would cut it there.
\<close>

theorem codegen_trimming_counterexample:
  "snd (codegen example_backend EOS_initial mistral_example ''def add(a, b):'' True 1) =
     Inr [''return a + b</s>def g''] \<and>
   remove_eos (eos_of EOS_initial mistral_example) ''return a + b</s>def g'' =
     ''return a + b''"
proof
  show "snd (codegen example_backend EOS_initial mistral_example ''def add(a, b):'' True 1) =
     Inr [''return a + b</s>def g'']"
    by (simp add: codegen_def MistralChatDecoder_codegen_def Let_def example_defs)
  show "remove_eos (eos_of EOS_initial mistral_example) ''return a + b</s>def g'' =
     ''return a + b''"
    using remove_eos_example by (simp add: example_defs)
qed

text \<open>
  Claim C6, amended: the decoders on transformers pass every decoded completion through
  the marker loop before they return it (\<open>CodeT5P\<close> then turns tabs into spaces); the
  decoders on vLLM hand their stop markers to vLLM as \<open>stop\<close> and return its texts with
  the tabs turned into spaces; the remote decoders return the text of the answer (the
  OpenAI decoder, the prompt and the \<open>code\<close> field of a JSON answer) and run no marker
  loop.
\<close>

theorem codegen_trimming:
  assumes ret: "snd (codegen be E self prompt do_sample num_samples) = Inr outs"
  shows "(cls self \<in> set transformers_classes \<longrightarrow>
            (\<exists>args sequences. model_generate be args = Inr sequences \<and>
               outs = map (\<lambda>seq. post_process self (remove_eos (eos_of E self)
                        (decode (hf_tokenizer be) (skip_special_tokens self)
                           (drop (length (g_input_tokens args)) seq)))) sequences)) \<and>
         (cls self \<in> set vllm_classes \<longrightarrow>
            (\<exists>prompts sp texts. llm_generate be prompts sp = Inr texts \<and>
               sp_stop sp = eos_of E self \<and>
               outs = map (str_replace [CHR 0x09] ''    '') texts)) \<and>
         (cls self = MistralChatDecoder \<longrightarrow>
            (\<forall>i<length outs. \<exists>args. client_chat be i args = Inr (outs ! i))) \<and>
         (cls self = AnthropicMessageDecoder \<longrightarrow>
            (\<forall>i<length outs. \<exists>args. anthropic_request be i args = Inr (outs ! i))) \<and>
         (cls self = OpenAIChatDecoder \<longrightarrow>
            (\<exists>args contents. make_auto_request be args = Inr contents \<and>
               length outs = length contents \<and>
               (\<forall>i<length outs. outs ! i = contents ! i \<or>
                  (\<exists>code. json_code be (contents ! i) = Some code \<and>
                     outs ! i = prompt @ ''\<newline>'' @ code))))"
proof (intro conjI impI)
  assume "cls self \<in> set transformers_classes"
  from transformers_codegen_generates [OF this ret]
  obtain args sequences where g: "model_generate be args = Inr sequences"
    and o: "outs = map (post_process self)
                     (decode_outputs be E self (length (g_input_tokens args)) sequences)"
    unfolding generates_def by blast
  show "\<exists>args sequences. model_generate be args = Inr sequences \<and>
               outs = map (\<lambda>seq. post_process self (remove_eos (eos_of E self)
                        (decode (hf_tokenizer be) (skip_special_tokens self)
                           (drop (length (g_input_tokens args)) seq)))) sequences"
    by (rule exI [of _ args], rule exI [of _ sequences]) (simp add: g o decode_outputs_def)
next
  assume "cls self \<in> set vllm_classes"
  with ret have "VLlmDecoder_codegen be E self (vllm_prompt (cls self) prompt) do_sample
                   num_samples = Inr outs"
    by (simp add: vllm_codegen_eq)
  from VLlmDecoder_codegen_Inr [OF this]
  obtain texts where
    "llm_generate be
       (replicate (nat (min (batch_size self) num_samples)) (vllm_prompt (cls self) prompt))
       \<lparr>sp_temperature = temperature self, sp_max_tokens = max_new_tokens self,
        sp_top_p = (if do_sample then 0.95 else 1.0), sp_stop = eos_of E self\<rparr> = Inr texts"
    and "outs = map (str_replace [CHR 0x09] ''    '') texts"
    by blast
  moreover have "sp_stop
       \<lparr>sp_temperature = temperature self, sp_max_tokens = max_new_tokens self,
        sp_top_p = (if do_sample then 0.95 else 1.0), sp_stop = eos_of E self\<rparr> =
       eos_of E self"
    by simp
  ultimately show "\<exists>prompts sp texts. llm_generate be prompts sp = Inr texts \<and>
               sp_stop sp = eos_of E self \<and>
               outs = map (str_replace [CHR 0x09] ''    '') texts"
    by blast
next
  assume "cls self = MistralChatDecoder"
  with ret have "snd (MistralChatDecoder_codegen be E self prompt do_sample num_samples) =
                 Inr outs"
    by (simp add: codegen_MistralChatDecoder)
  from MistralChatDecoder_codegen_Inr [OF this]
  show "\<forall>i<length outs. \<exists>args. client_chat be i args = Inr (outs ! i)" by simp
next
  assume "cls self = AnthropicMessageDecoder"
  with ret have "AnthropicMessageDecoder_codegen be E self prompt do_sample num_samples =
                 Inr outs"
    by (simp add: codegen_AnthropicMessageDecoder)
  from AnthropicMessageDecoder_codegen_Inr [OF this]
  show "\<forall>i<length outs. \<exists>args. anthropic_request be i args = Inr (outs ! i)" by simp
next
  assume "cls self = OpenAIChatDecoder"
  with ret have "OpenAIChatDecoder_codegen be E self prompt do_sample num_samples = Inr outs"
    by (simp add: codegen_OpenAIChatDecoder)
  from OpenAIChatDecoder_codegen_Inr [OF this]
  show "\<exists>args contents. make_auto_request be args = Inr contents \<and>
               length outs = length contents \<and>
               (\<forall>i<length outs. outs ! i = contents ! i \<or>
                  (\<exists>code. json_code be (contents ! i) = Some code \<and>
                     outs ! i = prompt @ ''\<newline>'' @ code))"
    by blast
qed

lemma hf_example_greedy:
  "snd (codegen example_backend EOS_initial hf_example ''def add(a, b):'' False 1) =
   Inr [''return a + b'']"
  using remove_eos_example
  by (simp add: codegen_def HFTorchDecoder_codegen_def transformers_generate_def
        decode_outputs_def scores_def Let_def example_defs)

theorem codegen_trimming_witness:
  "snd (codegen example_backend EOS_initial hf_example ''def add(a, b):'' False 1) =
     Inr [''return a + b''] \<and>
   cls hf_example \<in> set transformers_classes \<and>
   model_generate example_backend
     \<lparr>g_input_tokens = ''def add(a, b):'', g_max_new_tokens = 512,
      g_stopping_criteria =
        EndOfFunctionCriteria_init 15 EOS_initial char_tokenizer,
      g_do_sample = False, g_top_p = None, g_temperature = None,
      g_num_return_sequences = 1\<rparr> = Inr [''def add(a, b):return a + b</s>def g'']"
proof -
  have c: "cls hf_example \<in> set transformers_classes"
    by (simp add: transformers_classes_def example_defs)
  from codegen_trimming [OF hf_example_greedy] c
  have "\<exists>args sequences. model_generate example_backend args = Inr sequences \<and>
          [''return a + b''] = map (\<lambda>seq. post_process hf_example
             (remove_eos (eos_of EOS_initial hf_example)
                (decode (hf_tokenizer example_backend) (skip_special_tokens hf_example)
                   (drop (length (g_input_tokens args)) seq)))) sequences"
    by simp
  with hf_example_greedy c show ?thesis
    by (simp add: example_backend_def)
qed

section \<open>The attributes of the decoder\<close>

text \<open>
  Claim C9 fails: \<open>MistralChatDecoder.codegen\<close> called with \<open>do_sample = False\<close> runs
  \<open>self.temperature = 0\<close>; a decoder configured with temperature 0.8 has temperature 0
  after the call.
\<close>

theorem codegen_immutable_counterexample:
  "temperature mistral_example = 0.8 \<and>
   temperature
     (fst (codegen example_backend EOS_initial mistral_example ''def add(a, b):'' False 1)) = 0"
  by (simp add: codegen_def MistralChatDecoder_codegen_def Let_def example_defs)

text \<open>
  Claim C9, amended: a call of \<open>codegen\<close> leaves every attribute of the decoder as it
  was, whatever the class and whether the call returns or raises, with one exception:
  \<open>MistralChatDecoder.codegen\<close> called with \<open>do_sample = False\<close> sets the temperature of
  the decoder to 0 (and changes nothing else).
\<close>

theorem codegen_immutable:
  "fst (codegen be E self prompt do_sample num_samples) =
   (if cls self = MistralChatDecoder \<and> \<not> do_sample then self\<lparr>temperature := 0\<rparr> else self)"
  by (cases "cls self") (simp_all add: codegen_def MistralChatDecoder_codegen_def Let_def)

section \<open>The assertions of \<open>codegen\<close>\<close>

text \<open>
  Claim C2 fails: \<open>VLlmDecoder.codegen\<close> called with \<open>do_sample = False\<close> and
  \<open>num_samples = 200\<close> on a decoder with temperature 0.8 and batch size 4 raises nothing;
  it asks vLLM for four completions at the configured temperature, which is not 0.
\<close>

theorem codegen_assertions_counterexample:
  "temperature vllm_example = 0.8 \<and> batch_size vllm_example = 4 \<and>
   snd (codegen example_backend EOS_initial vllm_example ''def add(a, b):'' False 200) =
     Inr [''temperature not 0'', ''temperature not 0'', ''temperature not 0'',
          ''temperature not 0'']"
  by (simp add: codegen_def VLlmDecoder_codegen_def example_defs numeral_eq_Suc)

lemma zero_temperature_assertion:
  assumes "cls self \<in> set zero_temperature_asserting"
    and "temperature self = 0" and "do_sample \<or> num_samples \<noteq> 1"
  shows "snd (codegen be E self prompt do_sample num_samples) = Inl AssertionError"
  using assms
  apply (simp add: zero_temperature_asserting_def)
  apply (elim disjE)
  apply (simp_all add: codegen_def HFTorchDecoder_codegen_def Codegen2Decoder_codegen_def
      SantaCoder_codegen_def StarCoderInfill_codegen_def Speechless_codegen_def
      CodeT5P_codegen_def OpenCodeInterpreterDecoder_codegen_def)
  done

lemma sampling_assertion:
  assumes "cls self \<in> set sampling_asserting"
    and "do_sample" and "temperature self \<le> 0"
  shows "snd (codegen be E self prompt do_sample num_samples) = Inl AssertionError"
proof (cases "cls self \<in> set vllm_classes")
  case True
  with assms(2,3) show ?thesis by (simp add: vllm_codegen_eq VLlmDecoder_codegen_def)
next
  case False
  with assms(1) consider "cls self = OpenAIChatDecoder" | "cls self = MistralChatDecoder"
    | "cls self = AnthropicMessageDecoder"
    by (auto simp: sampling_asserting_def)
  then show ?thesis
  proof cases
    case 1
    with assms(2,3) show ?thesis
      by (simp add: codegen_OpenAIChatDecoder OpenAIChatDecoder_codegen_def)
  next
    case 2
    with assms(2,3) show ?thesis
      by (simp add: codegen_MistralChatDecoder MistralChatDecoder_codegen_def)
  next
    case 3
    with assms(2,3) show ?thesis
      by (simp add: codegen_AnthropicMessageDecoder AnthropicMessageDecoder_codegen_def)
  qed
qed

lemma anthropic_assertion:
  assumes "cls self = AnthropicMessageDecoder" and "\<not> do_sample"
    and "min (batch_size self) num_samples \<noteq> 1"
  shows "snd (codegen be E self prompt do_sample num_samples) = Inl AssertionError"
  using assms
  by (simp add: codegen_AnthropicMessageDecoder AnthropicMessageDecoder_codegen_def Let_def)

text \<open>
  Claim C2, amended: what \<open>codegen\<close> checks, each with an \<open>assert\<close>, is this. The
  decoders on transformers other than \<open>IncoderDecoder\<close> reject a configured temperature
  of 0 unless \<open>do_sample\<close> is false and \<open>num_samples\<close> is 1. \<open>AnthropicMessageDecoder\<close>
  rejects \<open>do_sample = False\<close> unless \<open>min(batch_size, num_samples)\<close> is 1. The decoders
  on vLLM and the three remote decoders reject \<open>do_sample = True\<close> with a temperature
  that is not positive. \<open>MistralChatDecoder\<close> called with \<open>do_sample = False\<close> sets its
  temperature to 0 instead of checking it.
\<close>

theorem codegen_assertions:
  "(cls self \<in> set zero_temperature_asserting \<and> temperature self = 0 \<and>
      (do_sample \<or> num_samples \<noteq> 1) \<longrightarrow>
      snd (codegen be E self prompt do_sample num_samples) = Inl AssertionError) \<and>
   (cls self = AnthropicMessageDecoder \<and> \<not> do_sample \<and>
      min (batch_size self) num_samples \<noteq> 1 \<longrightarrow>
      snd (codegen be E self prompt do_sample num_samples) = Inl AssertionError) \<and>
   (cls self \<in> set sampling_asserting \<and> do_sample \<and> temperature self \<le> 0 \<longrightarrow>
      snd (codegen be E self prompt do_sample num_samples) = Inl AssertionError) \<and>
   (cls self = MistralChatDecoder \<and> \<not> do_sample \<longrightarrow>
      temperature (fst (codegen be E self prompt do_sample num_samples)) = 0)"
proof (intro conjI impI)
  assume "cls self \<in> set zero_temperature_asserting \<and> temperature self = 0 \<and>
      (do_sample \<or> num_samples \<noteq> 1)"
  then show "snd (codegen be E self prompt do_sample num_samples) = Inl AssertionError"
    by (simp add: zero_temperature_assertion)
next
  assume "cls self = AnthropicMessageDecoder \<and> \<not> do_sample \<and>
      min (batch_size self) num_samples \<noteq> 1"
  then show "snd (codegen be E self prompt do_sample num_samples) = Inl AssertionError"
    by (simp add: anthropic_assertion)
next
  assume "cls self \<in> set sampling_asserting \<and> do_sample \<and> temperature self \<le> 0"
  then show "snd (codegen be E self prompt do_sample num_samples) = Inl AssertionError"
    by (simp add: sampling_assertion)
next
  assume "cls self = MistralChatDecoder \<and> \<not> do_sample"
  then show "temperature (fst (codegen be E self prompt do_sample num_samples)) = 0"
    by (simp add: codegen_MistralChatDecoder MistralChatDecoder_codegen_def Let_def)
qed

theorem codegen_assertions_witness:
  "cls hf_example \<in> set zero_temperature_asserting \<and> temperature hf_example = 0 \<and>
   snd (codegen example_backend EOS_initial hf_example ''def add(a, b):'' False 5) =
     Inl AssertionError \<and>
   snd (codegen example_backend EOS_initial hf_example ''def add(a, b):'' False 1) =
     Inr [''return a + b'']"
proof -
  have c: "cls hf_example \<in> set zero_temperature_asserting"
    by (simp add: zero_temperature_asserting_def example_defs)
  have t: "temperature hf_example = 0" by (simp add: example_defs)
  from codegen_assertions [of hf_example False 5 example_backend EOS_initial
      "''def add(a, b):''"] c t
  have "snd (codegen example_backend EOS_initial hf_example ''def add(a, b):'' False 5) =
     Inl AssertionError"
    by simp
  with c t hf_example_greedy show ?thesis by simp
qed

section \<open>The retry loop\<close>

lemma reduced_eq: "0 \<le> n \<Longrightarrow> reduced n = (4 * n) div 5"
proof -
  assume n: "0 \<le> n"
  have "(of_int n :: real) * 0.8 = of_int (4 * n) / of_int 5" by simp
  then have "\<lfloor>(of_int n :: real) * 0.8\<rfloor> = (4 * n) div 5"
    by (simp only: floor_divide_of_int_eq)
  moreover from n have "0 \<le> (of_int n :: real) * 0.8" by simp
  ultimately show ?thesis by (simp add: reduced_def int_of_float_def)
qed

lemma reduced_nonneg: "0 \<le> n \<Longrightarrow> 0 \<le> reduced n"
  by (simp add: reduced_eq)

lemma generate_retry_nonpos:
  "\<not> 0 < n \<Longrightarrow> generate_retry generate n = ([], Inl UnboundLocalError)"
  by (simp add: generate_retry.simps [of generate n])

lemma generate_retry_done:
  "0 < n \<Longrightarrow> \<not> is_oom (generate n) \<Longrightarrow> generate_retry generate n = ([n], generate n)"
  by (simp add: generate_retry.simps [of generate n] Let_def)

lemma generate_retry_oom:
  "0 < n \<Longrightarrow> is_oom (generate n) \<Longrightarrow>
   generate_retry generate n =
   (n # fst (generate_retry generate (reduced n)), snd (generate_retry generate (reduced n)))"
  by (simp add: generate_retry.simps [of generate n] Let_def split: prod.splits)

lemma generate_retry_cases:
  obtains (stop) "\<not> 0 < n" "generate_retry generate n = ([], Inl UnboundLocalError)"
  | (answered) "0 < n" "\<not> is_oom (generate n)" "generate_retry generate n = ([n], generate n)"
  | (oom) "0 < n" "is_oom (generate n)"
      "generate_retry generate n =
       (n # fst (generate_retry generate (reduced n)),
        snd (generate_retry generate (reduced n)))"
  using generate_retry_nonpos generate_retry_done generate_retry_oom by blast

lemma retry_bounds:
  "b \<in> set (fst (generate_retry generate n)) \<Longrightarrow> 0 < b \<and> b \<le> n"
proof (induction generate n rule: generate_retry.induct)
  case (1 generate max_new)
  show ?case
  proof (cases rule: generate_retry_cases [of max_new generate])
    case stop
    with "1.prems" show ?thesis by simp
  next
    case answered
    with "1.prems" show ?thesis by simp
  next
    case oom
    with "1.prems" consider "b = max_new"
      | "b \<in> set (fst (generate_retry generate (reduced max_new)))"
      by auto
    then show ?thesis
    proof cases
      case 1
      with oom show ?thesis by simp
    next
      case 2
      with "1.IH" oom have "0 < b \<and> b \<le> reduced max_new" by simp
      with reduced_less [OF oom(1)] show ?thesis by simp
    qed
  qed
qed

lemma retry_decreasing: "sorted_wrt (>) (fst (generate_retry generate n))"
proof (induction generate n rule: generate_retry.induct)
  case (1 generate max_new)
  show ?case
  proof (cases rule: generate_retry_cases [of max_new generate])
    case stop
    then show ?thesis by simp
  next
    case answered
    then show ?thesis by simp
  next
    case oom
    have "\<forall>b \<in> set (fst (generate_retry generate (reduced max_new))). b < max_new"
      using retry_bounds [of _ generate "reduced max_new"] reduced_less [OF oom(1)]
      by fastforce
    with "1.IH" oom show ?thesis by simp
  qed
qed

lemma retry_chain:
  "Suc i < length (fst (generate_retry generate n)) \<Longrightarrow>
   is_oom (generate (fst (generate_retry generate n) ! i)) \<and>
   fst (generate_retry generate n) ! Suc i = reduced (fst (generate_retry generate n) ! i)"
proof (induction generate n arbitrary: i rule: generate_retry.induct)
  case (1 generate max_new)
  show ?case
  proof (cases rule: generate_retry_cases [of max_new generate])
    case stop
    with "1.prems" show ?thesis by simp
  next
    case answered
    with "1.prems" show ?thesis by simp
  next
    case oom
    let ?rest = "fst (generate_retry generate (reduced max_new))"
    from oom "1.prems" have len: "i < length ?rest" by simp
    show ?thesis
    proof (cases i)
      case 0
      have "?rest \<noteq> []" using len by auto
      then have "0 < reduced max_new"
        using generate_retry_nonpos [of "reduced max_new" generate] by fastforce
      then have "hd ?rest = reduced max_new"
        by (cases rule: generate_retry_cases [of "reduced max_new" generate]) simp_all
      with \<open>?rest \<noteq> []\<close> have "?rest ! 0 = reduced max_new" by (simp add: hd_conv_nth)
      with 0 oom show ?thesis by simp
    next
      case (Suc j)
      with len have "Suc j < length ?rest" by simp
      with "1.IH" [of "generate max_new" j] oom
      have "is_oom (generate (?rest ! j)) \<and> ?rest ! Suc j = reduced (?rest ! j)" by simp
      with Suc oom show ?thesis by simp
    qed
  qed
qed

lemma retry_first:
  "0 < n \<Longrightarrow> fst (generate_retry generate n) \<noteq> [] \<and> hd (fst (generate_retry generate n)) = n"
  by (cases rule: generate_retry_cases [of n generate]) simp_all

lemma retry_outcome:
  "(fst (generate_retry generate n) \<noteq> [] \<and>
      \<not> is_oom (generate (last (fst (generate_retry generate n)))) \<and>
      snd (generate_retry generate n) = generate (last (fst (generate_retry generate n)))) \<or>
   ((\<forall>b \<in> set (fst (generate_retry generate n)). is_oom (generate b)) \<and>
      snd (generate_retry generate n) = Inl UnboundLocalError \<and>
      (if fst (generate_retry generate n) = [] then n \<le> 0
       else reduced (last (fst (generate_retry generate n))) = 0))"
proof (induction generate n rule: generate_retry.induct)
  case (1 generate max_new)
  show ?case
  proof (cases rule: generate_retry_cases [of max_new generate])
    case stop
    then show ?thesis by simp
  next
    case answered
    then show ?thesis by simp
  next
    case oom
    let ?rest = "fst (generate_retry generate (reduced max_new))"
    from "1.IH" [of "generate max_new"] oom
    have IH: "(?rest \<noteq> [] \<and> \<not> is_oom (generate (last ?rest)) \<and>
        snd (generate_retry generate (reduced max_new)) = generate (last ?rest)) \<or>
      ((\<forall>b \<in> set ?rest. is_oom (generate b)) \<and>
        snd (generate_retry generate (reduced max_new)) = Inl UnboundLocalError \<and>
        (if ?rest = [] then reduced max_new \<le> 0 else reduced (last ?rest) = 0))"
      by simp
    have nn: "0 \<le> reduced max_new" using oom(1) by (simp add: reduced_nonneg)
    from IH show ?thesis
    proof
      assume "?rest \<noteq> [] \<and> \<not> is_oom (generate (last ?rest)) \<and>
        snd (generate_retry generate (reduced max_new)) = generate (last ?rest)"
      with oom show ?thesis by simp
    next
      assume "(\<forall>b \<in> set ?rest. is_oom (generate b)) \<and>
        snd (generate_retry generate (reduced max_new)) = Inl UnboundLocalError \<and>
        (if ?rest = [] then reduced max_new \<le> 0 else reduced (last ?rest) = 0)"
      with oom nn show ?thesis by (auto split: if_splits)
    qed
  qed
qed

lemma retry_length: "int (length (fst (generate_retry generate n))) \<le> max 0 n"
proof (induction generate n rule: generate_retry.induct)
  case (1 generate max_new)
  show ?case
  proof (cases rule: generate_retry_cases [of max_new generate])
    case stop
    then show ?thesis by simp
  next
    case answered
    then show ?thesis by simp
  next
    case oom
    with "1.IH" [of "generate max_new"]
    have "int (length (fst (generate_retry generate (reduced max_new)))) \<le> max 0 (reduced max_new)"
      by simp
    with reduced_less [OF oom(1)] oom show ?thesis by simp
  qed
qed

text \<open>
  Claim C4: a retry replaces a budget \<open>n \<ge> 1\<close> by \<open>floor(0.8 n)\<close>, which is smaller and not
  negative; the budgets the loop tries are positive and strictly decreasing, each the
  reduction of the one before, which ran out of memory; the loop stops after at most as
  many attempts as the first budget; it ends with the answer of its last attempt, which
  is the generation or an exception other than out of memory, raised by the first attempt
  that meets it, or, after attempts that all ran out of memory, with a budget of zero.
\<close>

theorem generate_retry_terminates:
  "(\<forall>n \<ge> 1. reduced n = \<lfloor>0.8 * real_of_int n\<rfloor> \<and> 0 \<le> reduced n \<and> reduced n < n) \<and>
   sorted_wrt (>) (fst (generate_retry generate n)) \<and>
   (\<forall>b \<in> set (fst (generate_retry generate n)). 0 < b \<and> b \<le> n) \<and>
   (\<forall>i. Suc i < length (fst (generate_retry generate n)) \<longrightarrow>
      is_oom (generate (fst (generate_retry generate n) ! i)) \<and>
      fst (generate_retry generate n) ! Suc i = reduced (fst (generate_retry generate n) ! i)) \<and>
   (0 < n \<longrightarrow> fst (generate_retry generate n) \<noteq> [] \<and> hd (fst (generate_retry generate n)) = n) \<and>
   int (length (fst (generate_retry generate n))) \<le> max 0 n \<and>
   ((fst (generate_retry generate n) \<noteq> [] \<and>
      \<not> is_oom (generate (last (fst (generate_retry generate n)))) \<and>
      snd (generate_retry generate n) = generate (last (fst (generate_retry generate n)))) \<or>
    ((\<forall>b \<in> set (fst (generate_retry generate n)). is_oom (generate b)) \<and>
      snd (generate_retry generate n) = Inl UnboundLocalError \<and>
      (if fst (generate_retry generate n) = [] then n \<le> 0
       else reduced (last (fst (generate_retry generate n))) = 0))) \<and>
   (0 < n \<and> \<not> is_oom (generate n) \<longrightarrow> generate_retry generate n = ([n], generate n))"
proof (intro conjI)
  show "\<forall>n \<ge> 1. reduced n = \<lfloor>0.8 * real_of_int n\<rfloor> \<and> 0 \<le> reduced n \<and> reduced n < n"
  proof (intro allI impI)
    fix n :: int assume "1 \<le> n"
    then have "0 \<le> 0.8 * real_of_int n" by simp
    then have "reduced n = \<lfloor>0.8 * real_of_int n\<rfloor>"
      by (simp add: reduced_def int_of_float_def mult.commute)
    with \<open>1 \<le> n\<close> show "reduced n = \<lfloor>0.8 * real_of_int n\<rfloor> \<and> 0 \<le> reduced n \<and> reduced n < n"
      using reduced_less [of n] reduced_nonneg [of n] by simp
  qed
  show "sorted_wrt (>) (fst (generate_retry generate n))" by (rule retry_decreasing)
  show "\<forall>b \<in> set (fst (generate_retry generate n)). 0 < b \<and> b \<le> n"
    using retry_bounds by blast
  show "\<forall>i. Suc i < length (fst (generate_retry generate n)) \<longrightarrow>
      is_oom (generate (fst (generate_retry generate n) ! i)) \<and>
      fst (generate_retry generate n) ! Suc i = reduced (fst (generate_retry generate n) ! i)"
    using retry_chain by blast
  show "0 < n \<longrightarrow> fst (generate_retry generate n) \<noteq> [] \<and> hd (fst (generate_retry generate n)) = n"
    using retry_first by blast
  show "int (length (fst (generate_retry generate n))) \<le> max 0 n" by (rule retry_length)
  show "(fst (generate_retry generate n) \<noteq> [] \<and>
      \<not> is_oom (generate (last (fst (generate_retry generate n)))) \<and>
      snd (generate_retry generate n) = generate (last (fst (generate_retry generate n)))) \<or>
    ((\<forall>b \<in> set (fst (generate_retry generate n)). is_oom (generate b)) \<and>
      snd (generate_retry generate n) = Inl UnboundLocalError \<and>
      (if fst (generate_retry generate n) = [] then n \<le> 0
       else reduced (last (fst (generate_retry generate n))) = 0))"
    by (rule retry_outcome)
  show "0 < n \<and> \<not> is_oom (generate n) \<longrightarrow> generate_retry generate n = ([n], generate n)"
    using generate_retry_done by blast
qed

lemma example_oom: "is_oom (example_generate n) \<longleftrightarrow> n > 300"
proof -
  have "str_index ''CUDA out of memory. Tried to allocate 2.00 GiB'' ''CUDA out of memory'' = Some 0"
    by simp
  then show ?thesis by (simp add: is_oom_def example_generate_def str_in_def del: str_index.simps)
qed

lemma example_reduced: "reduced 512 = 409" "reduced 409 = 327" "reduced 327 = 261"
  by (simp_all add: reduced_eq)

lemma example_retry:
  "generate_retry example_generate 512 = ([512, 409, 327, 261], Inr ''generated'')"
proof -
  have "generate_retry example_generate 261 = ([261], Inr ''generated'')"
    by (simp add: generate_retry_done example_oom) (simp add: example_generate_def)
  then have "generate_retry example_generate 327 = ([327, 261], Inr ''generated'')"
    by (simp add: generate_retry_oom example_oom example_reduced)
  then have "generate_retry example_generate 409 = ([409, 327, 261], Inr ''generated'')"
    by (simp add: generate_retry_oom example_oom example_reduced)
  then show ?thesis
    by (simp add: generate_retry_oom example_oom example_reduced)
qed

theorem generate_retry_terminates_witness:
  "generate_retry example_generate 512 = ([512, 409, 327, 261], Inr ''generated'') \<and>
   reduced 512 = \<lfloor>0.8 * real_of_int 512\<rfloor> \<and> reduced 512 = 409 \<and>
   sorted_wrt (>) [512, 409, 327, 261 :: int] \<and>
   is_oom (example_generate 512) \<and> \<not> is_oom (example_generate 261) \<and>
   example_generate 261 = Inr ''generated''"
proof -
  from generate_retry_terminates [of example_generate 512]
  have "reduced 512 = \<lfloor>0.8 * real_of_int 512\<rfloor>"
    and "sorted_wrt (>) (fst (generate_retry example_generate 512))"
    by simp_all
  then show ?thesis
    by (simp add: example_retry example_oom example_reduced) (simp add: example_generate_def)
qed

section \<open>The lengths the stopping criterion records\<close>

lemma record_stops_other:
  "j \<noteq> index \<Longrightarrow> record_stops self row dec index stops el j = el j"
  by (induction stops arbitrary: el) simp_all

lemma record_stops_index:
  "record_stops self row dec index stops el index =
   (if filter (\<lambda>s. str_in s dec) stops = [] then el index
    else Some (stop_length self row (last (filter (\<lambda>s. str_in s dec) stops))))"
  by (induction stops arbitrary: el) simp_all

lemma list_ex_filter: "list_ex P xs \<longleftrightarrow> filter P xs \<noteq> []"
  by (induction xs) simp_all

lemma call_loop_Cons_fst:
  "fst (call_loop self ids ((index, dec) # rest) el) =
   fst (call_loop self ids rest
          (if list_ex (\<lambda>s. str_in s dec) (criteria_eos self) \<and> el index = None
           then record_stops self (ids ! index) dec index (criteria_eos self) el
           else el))"
  by (simp add: Let_def split: prod.splits)

lemma call_loop_untouched:
  "j \<notin> fst ` set ps \<Longrightarrow> fst (call_loop self ids ps el) j = el j"
proof (induction ps arbitrary: el)
  case Nil
  then show ?case by simp
next
  case (Cons p ps)
  obtain index dec where p: "p = (index, dec)" by (cases p)
  with Cons.prems have ne: "j \<noteq> index" and rest: "j \<notin> fst ` set ps" by auto
  show ?case
    unfolding p call_loop_Cons_fst Cons.IH [OF rest]
    using ne by (simp add: record_stops_other)
qed

lemma call_loop_entry:
  assumes "distinct (map fst ps)" and "(index, dec) \<in> set ps"
  shows "fst (call_loop self ids ps el) index =
         (if el index = None \<and> list_ex (\<lambda>s. str_in s dec) (criteria_eos self)
          then Some (stop_length self (ids ! index)
                       (last (filter (\<lambda>s. str_in s dec) (criteria_eos self))))
          else el index)"
  using assms
proof (induction ps arbitrary: el)
  case Nil
  then show ?case by simp
next
  case (Cons p ps)
  obtain i d where p: "p = (i, d)" by (cases p)
  show ?case
  proof (cases "i = index")
    case True
    with Cons.prems p have notin: "index \<notin> fst ` set ps" by auto
    from True Cons.prems p notin have d: "d = dec" by (auto simp: image_iff)
    show ?thesis
      unfolding p call_loop_Cons_fst call_loop_untouched [OF notin]
      using True d by (simp add: record_stops_index list_ex_filter)
  next
    case False
    with Cons.prems p have "distinct (map fst ps)" "(index, dec) \<in> set ps" by auto
    from Cons.IH [OF this] False show ?thesis
      unfolding p call_loop_Cons_fst by (simp add: record_stops_other)
  qed
qed

lemma call_end_length_loop:
  "end_length (fst (EndOfFunctionCriteria_call self ids)) =
   fst (call_loop self ids
          (enumerate 0
             (map (\<lambda>row. decode (tokenizer self) False (drop (start_length self) row)) ids))
          (end_length self))"
  by (simp add: EndOfFunctionCriteria_call_def Let_def split: prod.splits)

lemma call_end_length:
  "end_length (fst (EndOfFunctionCriteria_call self ids)) index =
   (if end_length self index = None \<and> stop_seen self ids index
    then Some (recorded_length self (ids ! index)) else end_length self index)"
proof (cases "index < length ids")
  case True
  let ?decs = "map (\<lambda>row. decode (tokenizer self) False (drop (start_length self) row)) ids"
  have d: "distinct (map fst (enumerate 0 ?decs))" by simp
  from True have m: "(index, ?decs ! index) \<in> set (enumerate 0 ?decs)"
    by (simp add: in_set_enumerate_eq)
  from True have dec: "?decs ! index =
      decode (tokenizer self) False (drop (start_length self) (ids ! index))"
    by simp
  show ?thesis
    unfolding call_end_length_loop call_loop_entry [OF d m] dec
    using True by (simp add: stop_seen_def recorded_length_def list_ex_str_in)
next
  case False
  then have "index \<notin> fst ` set (enumerate 0
      (map (\<lambda>row. decode (tokenizer self) False (drop (start_length self) row)) ids))"
    by (auto simp: in_set_enumerate_eq)
  from call_loop_untouched [OF this, of self ids "end_length self"] False
  show ?thesis
    unfolding call_end_length_loop by (simp add: stop_seen_def)
qed

lemma call_fields:
  "start_length (fst (EndOfFunctionCriteria_call self ids)) = start_length self \<and>
   criteria_eos (fst (EndOfFunctionCriteria_call self ids)) = criteria_eos self \<and>
   tokenizer (fst (EndOfFunctionCriteria_call self ids)) = tokenizer self"
  by (simp add: EndOfFunctionCriteria_call_def Let_def split: prod.splits)

lemma call_stop_seen:
  "stop_seen (fst (EndOfFunctionCriteria_call self ids)) = stop_seen self"
  by (simp add: stop_seen_def call_fields fun_eq_iff)

lemma call_recorded_length:
  "recorded_length (fst (EndOfFunctionCriteria_call self ids)) = recorded_length self"
  by (simp add: recorded_length_def stop_length_def call_fields fun_eq_iff)

lemma run_steps_Cons:
  "run_steps self (ids # steps) = run_steps (fst (EndOfFunctionCriteria_call self ids)) steps"
  by (simp add: run_steps_def)

lemma run_steps_end_length:
  "end_length (run_steps self steps) index =
   (case end_length self index of
      Some v \<Rightarrow> Some v
    | None \<Rightarrow>
        (case find (\<lambda>ids. stop_seen self ids index) steps of
           None \<Rightarrow> None
         | Some ids \<Rightarrow> Some (recorded_length self (ids ! index))))"
proof (induction steps arbitrary: self)
  case Nil
  then show ?case by (simp add: run_steps_def split: option.splits)
next
  case (Cons ids steps)
  show ?case
    unfolding run_steps_Cons Cons.IH call_stop_seen call_recorded_length
    by (simp add: call_end_length split: option.splits)
qed

lemma stop_length_eq:
  "stop_length self row s =
   (if encode (tokenizer self) False s = [] then 0
    else generated_length self row - length (encode (tokenizer self) False s))"
  by (auto simp: stop_length_def py_slice_def slice_index_def generated_length_def Let_def)

lemma stop_seen_found:
  assumes "stop_seen self ids index"
  shows "last (filter (\<lambda>s. str_in s (decode (tokenizer self) False
            (drop (start_length self) (ids ! index)))) (criteria_eos self))
         \<in> {s \<in> set (criteria_eos self). sublist s (decode (tokenizer self) False
            (drop (start_length self) (ids ! index)))}"
proof -
  let ?dec = "decode (tokenizer self) False (drop (start_length self) (ids ! index))"
  let ?f = "filter (\<lambda>s. str_in s ?dec) (criteria_eos self)"
  from assms have "?f \<noteq> []"
    by (simp add: stop_seen_def list_ex_str_in [symmetric] list_ex_filter)
  then have "last ?f \<in> set ?f" by (rule last_in_set)
  then show ?thesis by (simp add: str_in_iff_sublist)
qed

lemma find_append:
  "find P (xs @ ys) = (case find P xs of None \<Rightarrow> find P ys | Some x \<Rightarrow> Some x)"
  by (induction xs) simp_all

text \<open>
  Claim C5: over any sequence of calls of the criterion, starting with no length recorded
  for a sequence index, the length recorded for the index is the one stored at the first
  call at which a stop string occurs in the text decoded from \<open>start_length\<close> on, and no
  later call changes it. The length stored is the number of tokens generated at that call
  less the number of tokens that encode a stop string found in the text (the last of the
  list that is found; 0 when its encoding is empty, or longer than the generation), so it
  is at most the number of tokens generated at that call.
\<close>

theorem end_length_recorded_once:
  assumes fresh: "end_length self index = None"
  shows "end_length (run_steps self steps) index =
           (case find (\<lambda>input_ids. stop_seen self input_ids index) steps of
              None \<Rightarrow> None
            | Some input_ids \<Rightarrow> Some (recorded_length self (input_ids ! index))) \<and>
         (end_length (run_steps self steps) index \<noteq> None \<longrightarrow>
            end_length (run_steps self (steps @ later)) index =
            end_length (run_steps self steps) index) \<and>
         (\<forall>input_ids. stop_seen self input_ids index \<longrightarrow>
            recorded_length self (input_ids ! index) \<le>
              generated_length self (input_ids ! index) \<and>
            (\<exists>stop_string \<in> set (criteria_eos self).
               sublist stop_string
                 (decode (tokenizer self) False (drop (start_length self) (input_ids ! index))) \<and>
               recorded_length self (input_ids ! index) =
                 (if encode (tokenizer self) False stop_string = [] then 0
                  else generated_length self (input_ids ! index) -
                       length (encode (tokenizer self) False stop_string))))"
proof (intro conjI allI impI)
  show first: "end_length (run_steps self steps) index =
           (case find (\<lambda>input_ids. stop_seen self input_ids index) steps of
              None \<Rightarrow> None
            | Some input_ids \<Rightarrow> Some (recorded_length self (input_ids ! index)))"
    by (simp add: run_steps_end_length fresh)
  show "end_length (run_steps self (steps @ later)) index =
        end_length (run_steps self steps) index"
    if "end_length (run_steps self steps) index \<noteq> None"
    using that
    by (simp add: run_steps_end_length fresh find_append split: option.splits)
next
  fix input_ids
  assume seen: "stop_seen self input_ids index"
  show "recorded_length self (input_ids ! index) \<le> generated_length self (input_ids ! index)"
    by (simp add: recorded_length_def stop_length_eq)
  from stop_seen_found [OF seen]
  show "\<exists>stop_string \<in> set (criteria_eos self).
               sublist stop_string
                 (decode (tokenizer self) False (drop (start_length self) (input_ids ! index))) \<and>
               recorded_length self (input_ids ! index) =
                 (if encode (tokenizer self) False stop_string = [] then 0
                  else generated_length self (input_ids ! index) -
                       length (encode (tokenizer self) False stop_string))"
    unfolding recorded_length_def stop_length_eq by blast
qed

lemma example_seen:
  "\<not> stop_seen example_criteria [''p:ab'', ''p:cd''] 0"
  "stop_seen example_criteria [''p:ab</s>'', ''p:cde''] 0"
  by (simp_all add: stop_seen_def example_criteria_def EndOfFunctionCriteria_init_def
        char_tokenizer_def EOS_initial_def list_ex_str_in [symmetric] str_in_def)

lemma example_recorded: "recorded_length example_criteria ''p:ab</s>'' = 2"
  by (simp add: recorded_length_def stop_length_eq generated_length_def example_criteria_def
        EndOfFunctionCriteria_init_def char_tokenizer_def EOS_initial_def str_in_def)

theorem end_length_recorded_once_witness:
  "end_length example_criteria 0 = None \<and>
   find (\<lambda>input_ids. stop_seen example_criteria input_ids 0) example_steps =
     Some [''p:ab</s>'', ''p:cde''] \<and>
   end_length (run_steps example_criteria example_steps) 0 = Some 2 \<and>
   generated_length example_criteria ''p:ab</s>'' = 6 \<and>
   generated_length example_criteria ''p:ab</s>q'' = 7 \<and>
   encode (tokenizer example_criteria) False ''</s>'' = ''</s>''"
proof -
  have fresh: "end_length example_criteria 0 = None"
    by (simp add: example_criteria_def EndOfFunctionCriteria_init_def)
  have f: "find (\<lambda>input_ids. stop_seen example_criteria input_ids 0) example_steps =
     Some [''p:ab</s>'', ''p:cde'']"
    by (simp add: example_steps_def example_seen)
  from end_length_recorded_once [OF fresh, of example_steps]
  have "end_length (run_steps example_criteria example_steps) 0 = Some 2"
    by (simp add: f example_recorded)
  with fresh f show ?thesis
    by (simp add: generated_length_def example_criteria_def EndOfFunctionCriteria_init_def
          char_tokenizer_def)
qed

section \<open>That \<open>codegen\<close> returns, and how many completions\<close>

lemma backend_answers_counts: "backend_answers be \<Longrightarrow> backend_counts be"
  unfolding backend_answers_def backend_counts_def
  by (metis sum.inject(2))

lemma request_loop_total:
  "(\<And>i. \<exists>content. call i = Inr content) \<Longrightarrow> \<exists>outs. request_loop call idxs acc = Inr outs"
proof (induction idxs arbitrary: acc)
  case Nil
  then show ?case by simp
next
  case (Cons i rest)
  from Cons.prems obtain content where c: "call i = Inr content" by blast
  from Cons.IH [OF Cons.prems, of "acc @ [content]"] c show ?case by simp
qed

lemma transformers_generate_total:
  "backend_answers be \<Longrightarrow> \<exists>outs. transformers_generate be E self args = Inr outs"
proof -
  assume "backend_answers be"
  then obtain sequences where "model_generate be args = Inr sequences"
    unfolding backend_answers_def by blast
  then show ?thesis by (simp add: transformers_generate_def)
qed

lemma VLlmDecoder_codegen_total:
  assumes "backend_answers be" and "\<not> (do_sample \<and> \<not> 0 < temperature self)"
  shows "\<exists>outs. VLlmDecoder_codegen be E self p do_sample num_samples = Inr outs"
proof -
  let ?r = "llm_generate be (replicate (nat (min (batch_size self) num_samples)) p)
            \<lparr>sp_temperature = temperature self, sp_max_tokens = max_new_tokens self,
             sp_top_p = (if do_sample then 0.95 else 1.0), sp_stop = eos_of E self\<rparr>"
  from assms(1) obtain texts where "?r = Inr texts"
    unfolding backend_answers_def by blast
  with assms(2) show ?thesis
    by (simp add: VLlmDecoder_codegen_def Let_def)
qed

lemma CodeT5P_codegen_total:
  assumes "backend_answers be"
    and "\<not> (temperature self = 0 \<and> (do_sample \<or> num_samples \<noteq> 1))"
    and "0 < max_new_tokens self"
  shows "\<exists>outs. CodeT5P_codegen be E self prompt do_sample num_samples = Inr outs"
proof -
  let ?toks = "encode (hf_tokenizer be) True (str_replace ''    '' [CHR 0x09] prompt)"
  let ?gen = "\<lambda>max_new. model_generate be
                   \<lparr>g_input_tokens = ?toks, g_max_new_tokens = max_new,
                    g_stopping_criteria = scores be E self ?toks, g_do_sample = do_sample,
                    g_top_p = Some 0.95, g_temperature = Some (temperature self),
                    g_num_return_sequences = min (batch_size self) num_samples\<rparr>"
  from assms(1) obtain sequences where s: "?gen (max_new_tokens self) = Inr sequences"
    unfolding backend_answers_def by blast
  then have "\<not> is_oom (?gen (max_new_tokens self))" by (simp add: is_oom_def)
  with assms(3) have "generate_retry ?gen (max_new_tokens self) =
      ([max_new_tokens self], ?gen (max_new_tokens self))"
    by (rule generate_retry_done)
  with s have "snd (generate_retry ?gen (max_new_tokens self)) = Inr sequences" by simp
  with assms(2) show ?thesis
    by (simp add: CodeT5P_codegen_def Let_def)
qed

lemma transformers_codegen_total:
  assumes "backend_answers be" and "codegen_passes self do_sample num_samples"
    and "cls self \<in> set transformers_classes"
  shows "\<exists>outs. snd (codegen be E self prompt do_sample num_samples) = Inr outs"
  using assms(3,2)
  apply (simp add: transformers_classes_def)
  apply (elim disjE)
         apply (simp_all add: codegen_def codegen_passes_def zero_temperature_asserting_def
      sampling_asserting_def vllm_classes_def fence_classes_def)
         apply (simp_all add: HFTorchDecoder_codegen_def IncoderDecoder_codegen_def
      Codegen2Decoder_codegen_def SantaCoder_codegen_def StarCoderInfill_codegen_def
      Speechless_codegen_def OpenCodeInterpreterDecoder_codegen_def Let_def
      transformers_generate_total [OF assms(1)] CodeT5P_codegen_total [OF assms(1)])
  done

lemma vllm_codegen_total:
  assumes "backend_answers be" and "codegen_passes self do_sample num_samples"
    and v: "cls self \<in> set vllm_classes"
  shows "\<exists>outs. snd (codegen be E self prompt do_sample num_samples) = Inr outs"
proof -
  from v have "cls self \<in> set sampling_asserting" by (simp add: sampling_asserting_def)
  with assms(2) have "\<not> (do_sample \<and> \<not> 0 < temperature self)"
    by (simp add: codegen_passes_def)
  from VLlmDecoder_codegen_total [OF assms(1) this] show ?thesis
    by (simp add: vllm_codegen_eq [OF v])
qed

lemma remote_codegen_total:
  assumes "backend_answers be" and "codegen_passes self do_sample num_samples"
    and r: "cls self = OpenAIChatDecoder \<or> cls self = MistralChatDecoder \<or>
            cls self = AnthropicMessageDecoder"
  shows "\<exists>outs. snd (codegen be E self prompt do_sample num_samples) = Inr outs"
proof -
  from r have "cls self \<in> set sampling_asserting" by (auto simp: sampling_asserting_def)
  with assms(2) have t: "\<not> (do_sample \<and> \<not> 0 < temperature self)"
    by (simp add: codegen_passes_def)
  from r consider "cls self = OpenAIChatDecoder" | "cls self = MistralChatDecoder"
    | "cls self = AnthropicMessageDecoder" by blast
  then show ?thesis
  proof cases
    case 1
    from assms(1) have "\<And>args. \<exists>contents. make_auto_request be args = Inr contents"
      unfolding backend_answers_def by blast
    then obtain f where f: "\<And>args. make_auto_request be args = Inr (f args)" by metis
    from t show ?thesis
      by (simp add: codegen_OpenAIChatDecoder [OF 1] OpenAIChatDecoder_codegen_def Let_def f)
  next
    case 2
    from assms(1) have c: "\<And>args i. \<exists>content. client_chat be i args = Inr content"
      unfolding backend_answers_def by blast
    from t show ?thesis
      by (simp add: codegen_MistralChatDecoder [OF 2] MistralChatDecoder_codegen_def Let_def
            request_loop_total [OF c])
  next
    case 3
    from assms(1) have c: "\<And>args i. \<exists>content. anthropic_request be i args = Inr content"
      unfolding backend_answers_def by blast
    from assms(2) 3 have n: "\<not> (\<not> do_sample \<and> min (batch_size self) num_samples \<noteq> 1)"
      by (auto simp: codegen_passes_def)
    from t n show ?thesis
      by (simp add: codegen_AnthropicMessageDecoder [OF 3] AnthropicMessageDecoder_codegen_def
            Let_def request_loop_total [OF c])
  qed
qed

lemma codegen_total:
  assumes "backend_answers be" and "codegen_passes self do_sample num_samples"
  shows "\<exists>outs. snd (codegen be E self prompt do_sample num_samples) = Inr outs"
  using class_family [of self] vllm_codegen_total [OF assms] transformers_codegen_total [OF assms]
    remote_codegen_total [OF assms]
  by blast

text \<open>
  Claim C3 fails where the minimum is negative: \<open>VLlmDecoder.codegen\<close> called with
  \<open>num_samples = -1\<close> on a decoder of batch size 4 takes \<open>batch_size = min(4, -1) = -1\<close>,
  passes the empty list \<open>[prompt] * -1\<close> to vLLM and returns no completion, not -1 of them.
\<close>

theorem codegen_count_counterexample:
  "batch_size vllm_example = 4 \<and> min (batch_size vllm_example) (- 1) = - 1 \<and>
   snd (codegen example_backend EOS_initial vllm_example ''def add(a, b):'' True (- 1)) = Inr []"
  by (simp add: codegen_def VLlmDecoder_codegen_def example_defs)

text \<open>
  Claim C3, amended: every \<open>codegen\<close> takes \<open>min(self.batch_size, num_samples)\<close> as its
  batch size. A call that passes the assertions of its class (and, for \<open>CodeT5P\<close>, has a
  positive budget of new tokens), on collaborators that answer every request with as many
  items as it asks for, returns, and returns that many completions when the minimum is
  not negative and none otherwise. On collaborators that may raise, a call that
  returns has returned that many.
\<close>

theorem codegen_count:
  "(backend_answers be \<and> codegen_passes self do_sample num_samples \<longrightarrow>
      (\<exists>outs. snd (codegen be E self prompt do_sample num_samples) = Inr outs \<and>
         int (length outs) = max 0 (min (batch_size self) num_samples))) \<and>
   (backend_counts be \<longrightarrow>
      (\<forall>outs. snd (codegen be E self prompt do_sample num_samples) = Inr outs \<longrightarrow>
         int (length outs) = max 0 (min (batch_size self) num_samples)))"
proof (intro conjI impI allI)
  assume a: "backend_answers be \<and> codegen_passes self do_sample num_samples"
  then obtain outs where o: "snd (codegen be E self prompt do_sample num_samples) = Inr outs"
    using codegen_total by blast
  from a have "backend_counts be" by (simp add: backend_answers_counts)
  from codegen_count_returned [OF this o]
  have "int (length outs) = max 0 (min (batch_size self) num_samples)"
    by (simp add: max_def)
  with o show "\<exists>outs. snd (codegen be E self prompt do_sample num_samples) = Inr outs \<and>
         int (length outs) = max 0 (min (batch_size self) num_samples)"
    by blast
next
  fix outs
  assume "backend_counts be"
    and "snd (codegen be E self prompt do_sample num_samples) = Inr outs"
  from codegen_count_returned [OF this]
  show "int (length outs) = max 0 (min (batch_size self) num_samples)"
    by (simp add: max_def)
qed

lemma example_backend_answers: "backend_answers example_backend"
  by (simp add: backend_answers_def example_backend_def)

lemma vllm_example_passes: "codegen_passes vllm_example True 200"
  by (simp add: codegen_passes_def zero_temperature_asserting_def example_defs)

theorem codegen_count_witness:
  "backend_answers example_backend \<and> backend_counts example_backend \<and>
   codegen_passes vllm_example True 200 \<and>
   batch_size vllm_example = 4 \<and>
   snd (codegen example_backend EOS_initial vllm_example ''def add(a, b):'' True 200) =
     Inr [''temperature not 0'', ''temperature not 0'', ''temperature not 0'',
          ''temperature not 0''] \<and>
   int (length [''temperature not 0'', ''temperature not 0'', ''temperature not 0'',
                ''temperature not 0'']) = max 0 (min 4 200)"
proof -
  have b: "batch_size vllm_example = 4" by (simp add: example_defs)
  from codegen_count [of example_backend vllm_example True 200 EOS_initial
      "''def add(a, b):''"] example_backend_answers vllm_example_passes
  have "\<exists>outs. snd (codegen example_backend EOS_initial vllm_example ''def add(a, b):'' True
            200) = Inr outs \<and>
          int (length outs) = max 0 (min (batch_size vllm_example) 200)"
    by blast
  with b example_backend_answers example_backend_counts vllm_example_passes
    vllm_example_sampling
  show ?thesis by simp
qed


end
